theory Spec2Isabelle
  imports Main
begin

section \<open>Texts of the replies and of the spreadsheet columns\<close>

text \<open>
  The server answers in Arabic and reads Arabic column headers. A string of the model is
  a list of bytes, so each Arabic literal of \<^verbatim>\<open>server/routes.ts\<close> is written
  here as its UTF-8 encoding: first the texts of the replies and of the audit entries,
  then the five column headers of an uploaded sheet.
\<close>

definition msg_unauthorized :: string where
  "msg_unauthorized =
     [CHR 0xD8, CHR 0xBA, CHR 0xD9, CHR 0x8A, CHR 0xD8, CHR 0xB1, CHR 0x20, CHR 0xD9, CHR 0x85,
      CHR 0xD8, CHR 0xB5, CHR 0xD8, CHR 0xB1, CHR 0xD8, CHR 0xAD]"

definition msg_forbidden :: string where
  "msg_forbidden =
     [CHR 0xD8, CHR 0xBA, CHR 0xD9, CHR 0x8A, CHR 0xD8, CHR 0xB1, CHR 0x20, CHR 0xD9, CHR 0x85,
      CHR 0xD8, CHR 0xB3, CHR 0xD9, CHR 0x85, CHR 0xD9, CHR 0x88, CHR 0xD8, CHR 0xAD]"

definition msg_missing_data :: string where
  "msg_missing_data =
     [CHR 0xD8, CHR 0xA8, CHR 0xD9, CHR 0x8A, CHR 0xD8, CHR 0xA7, CHR 0xD9, CHR 0x86, CHR 0xD8,
      CHR 0xA7, CHR 0xD8, CHR 0xAA, CHR 0x20, CHR 0xD9, CHR 0x86, CHR 0xD8, CHR 0xA7, CHR 0xD9,
      CHR 0x82, CHR 0xD8, CHR 0xB5, CHR 0xD8, CHR 0xA9]"

definition msg_invalid_credentials :: string where
  "msg_invalid_credentials =
     [CHR 0xD8, CHR 0xA8, CHR 0xD9, CHR 0x8A, CHR 0xD8, CHR 0xA7, CHR 0xD9, CHR 0x86, CHR 0xD8,
      CHR 0xA7, CHR 0xD8, CHR 0xAA, CHR 0x20, CHR 0xD8, CHR 0xA7, CHR 0xD9, CHR 0x84, CHR 0xD8,
      CHR 0xAF, CHR 0xD8, CHR 0xAE, CHR 0xD9, CHR 0x88, CHR 0xD9, CHR 0x84, CHR 0x20, CHR 0xD8,
      CHR 0xBA, CHR 0xD9, CHR 0x8A, CHR 0xD8, CHR 0xB1, CHR 0x20, CHR 0xD8, CHR 0xB5, CHR 0xD8,
      CHR 0xAD, CHR 0xD9, CHR 0x8A, CHR 0xD8, CHR 0xAD, CHR 0xD8, CHR 0xA9]"

definition msg_account_disabled :: string where
  "msg_account_disabled =
     [CHR 0xD8, CHR 0xA7, CHR 0xD9, CHR 0x84, CHR 0xD8, CHR 0xAD, CHR 0xD8, CHR 0xB3, CHR 0xD8,
      CHR 0xA7, CHR 0xD8, CHR 0xA8, CHR 0x20, CHR 0xD8, CHR 0xBA, CHR 0xD9, CHR 0x8A, CHR 0xD8,
      CHR 0xB1, CHR 0x20, CHR 0xD9, CHR 0x85, CHR 0xD9, CHR 0x81, CHR 0xD8, CHR 0xB9, CHR 0xD9,
      CHR 0x84]"

definition msg_invalid_data :: string where
  "msg_invalid_data =
     [CHR 0xD8, CHR 0xA8, CHR 0xD9, CHR 0x8A, CHR 0xD8, CHR 0xA7, CHR 0xD9, CHR 0x86, CHR 0xD8,
      CHR 0xA7, CHR 0xD8, CHR 0xAA, CHR 0x20, CHR 0xD8, CHR 0xBA, CHR 0xD9, CHR 0x8A, CHR 0xD8,
      CHR 0xB1, CHR 0x20, CHR 0xD8, CHR 0xB5, CHR 0xD8, CHR 0xA7, CHR 0xD9, CHR 0x84, CHR 0xD8,
      CHR 0xAD, CHR 0xD8, CHR 0xA9]"

definition msg_username_taken :: string where
  "msg_username_taken =
     [CHR 0xD8, CHR 0xA7, CHR 0xD8, CHR 0xB3, CHR 0xD9, CHR 0x85, CHR 0x20, CHR 0xD8, CHR 0xA7,
      CHR 0xD9, CHR 0x84, CHR 0xD9, CHR 0x85, CHR 0xD8, CHR 0xB3, CHR 0xD8, CHR 0xAA, CHR 0xD8,
      CHR 0xAE, CHR 0xD8, CHR 0xAF, CHR 0xD9, CHR 0x85, CHR 0x20, CHR 0xD9, CHR 0x85, CHR 0xD8,
      CHR 0xB3, CHR 0xD8, CHR 0xAA, CHR 0xD8, CHR 0xAE, CHR 0xD8, CHR 0xAF, CHR 0xD9, CHR 0x85,
      CHR 0x20, CHR 0xD9, CHR 0x85, CHR 0xD8, CHR 0xB3, CHR 0xD8, CHR 0xA8, CHR 0xD9, CHR 0x82,
      CHR 0xD8, CHR 0xA7, CHR 0xD9, CHR 0x8B]"

definition msg_name_date_required :: string where
  "msg_name_date_required =
     [CHR 0xD8, CHR 0xA7, CHR 0xD8, CHR 0xB3, CHR 0xD9, CHR 0x85, CHR 0x20, CHR 0xD8, CHR 0xA7,
      CHR 0xD9, CHR 0x84, CHR 0xD9, CHR 0x85, CHR 0xD9, CHR 0x86, CHR 0xD8, CHR 0xA7, CHR 0xD8,
      CHR 0xB3, CHR 0xD8, CHR 0xA8, CHR 0xD8, CHR 0xA9, CHR 0x20, CHR 0xD9, CHR 0x88, CHR 0xD8,
      CHR 0xA7, CHR 0xD9, CHR 0x84, CHR 0xD8, CHR 0xAA, CHR 0xD8, CHR 0xA7, CHR 0xD8, CHR 0xB1,
      CHR 0xD9, CHR 0x8A, CHR 0xD8, CHR 0xAE, CHR 0x20, CHR 0xD9, CHR 0x85, CHR 0xD8, CHR 0xB7,
      CHR 0xD9, CHR 0x84, CHR 0xD9, CHR 0x88, CHR 0xD8, CHR 0xA8, CHR 0xD8, CHR 0xA7, CHR 0xD9,
      CHR 0x86]"

definition msg_event_failed :: string where
  "msg_event_failed =
     [CHR 0xD8, CHR 0xAE, CHR 0xD8, CHR 0xB7, CHR 0xD8, CHR 0xA3, CHR 0x20, CHR 0xD9, CHR 0x81,
      CHR 0xD9, CHR 0x8A, CHR 0x20, CHR 0xD8, CHR 0xA5, CHR 0xD9, CHR 0x86, CHR 0xD8, CHR 0xB4,
      CHR 0xD8, CHR 0xA7, CHR 0xD8, CHR 0xA1, CHR 0x20, CHR 0xD8, CHR 0xA7, CHR 0xD9, CHR 0x84,
      CHR 0xD9, CHR 0x85, CHR 0xD9, CHR 0x86, CHR 0xD8, CHR 0xA7, CHR 0xD8, CHR 0xB3, CHR 0xD8,
      CHR 0xA8, CHR 0xD8, CHR 0xA9]"

definition msg_event_created :: string where
  "msg_event_created =
     [CHR 0xD8, CHR 0xAA, CHR 0xD9, CHR 0x85, CHR 0x20, CHR 0xD8, CHR 0xA5, CHR 0xD9, CHR 0x86,
      CHR 0xD8, CHR 0xB4, CHR 0xD8, CHR 0xA7, CHR 0xD8, CHR 0xA1, CHR 0x20, CHR 0xD8, CHR 0xA7,
      CHR 0xD9, CHR 0x84, CHR 0xD9, CHR 0x85, CHR 0xD9, CHR 0x86, CHR 0xD8, CHR 0xA7, CHR 0xD8,
      CHR 0xB3, CHR 0xD8, CHR 0xA8, CHR 0xD8, CHR 0xA9, CHR 0x3A, CHR 0x20]"

definition msg_no_file :: string where
  "msg_no_file =
     [CHR 0xD9, CHR 0x84, CHR 0xD9, CHR 0x85, CHR 0x20, CHR 0xD9, CHR 0x8A, CHR 0xD8, CHR 0xAA,
      CHR 0xD9, CHR 0x85, CHR 0x20, CHR 0xD8, CHR 0xB1, CHR 0xD9, CHR 0x81, CHR 0xD8, CHR 0xB9,
      CHR 0x20, CHR 0xD9, CHR 0x85, CHR 0xD9, CHR 0x84, CHR 0xD9, CHR 0x81]"

definition msg_uploaded_pre :: string where
  "msg_uploaded_pre =
     [CHR 0xD8, CHR 0xAA, CHR 0xD9, CHR 0x85, CHR 0x20, CHR 0xD8, CHR 0xB1, CHR 0xD9, CHR 0x81,
      CHR 0xD8, CHR 0xB9, CHR 0x20]"

definition msg_uploaded_post :: string where
  "msg_uploaded_post =
     [CHR 0x20, CHR 0xD8, CHR 0xB6, CHR 0xD9, CHR 0x8A, CHR 0xD9, CHR 0x81]"

definition msg_guest_not_found :: string where
  "msg_guest_not_found =
     [CHR 0xD8, CHR 0xA7, CHR 0xD9, CHR 0x84, CHR 0xD8, CHR 0xB6, CHR 0xD9, CHR 0x8A, CHR 0xD9,
      CHR 0x81, CHR 0x20, CHR 0xD8, CHR 0xBA, CHR 0xD9, CHR 0x8A, CHR 0xD8, CHR 0xB1, CHR 0x20,
      CHR 0xD9, CHR 0x85, CHR 0xD9, CHR 0x88, CHR 0xD8, CHR 0xAC, CHR 0xD9, CHR 0x88, CHR 0xD8,
      CHR 0xAF]"

definition msg_already_used :: string where
  "msg_already_used =
     [CHR 0xD8, CHR 0xAA, CHR 0xD9, CHR 0x85, CHR 0x20, CHR 0xD8, CHR 0xA7, CHR 0xD8, CHR 0xB3,
      CHR 0xD8, CHR 0xAA, CHR 0xD8, CHR 0xAE, CHR 0xD8, CHR 0xAF, CHR 0xD8, CHR 0xA7, CHR 0xD9,
      CHR 0x85, CHR 0x20, CHR 0xD9, CHR 0x87, CHR 0xD8, CHR 0xB0, CHR 0xD9, CHR 0x87, CHR 0x20,
      CHR 0xD8, CHR 0xA7, CHR 0xD9, CHR 0x84, CHR 0xD8, CHR 0xAF, CHR 0xD8, CHR 0xB9, CHR 0xD9,
      CHR 0x88, CHR 0xD8, CHR 0xA9, CHR 0x20, CHR 0xD9, CHR 0x85, CHR 0xD8, CHR 0xB3, CHR 0xD8,
      CHR 0xA8, CHR 0xD9, CHR 0x82, CHR 0xD8, CHR 0xA7, CHR 0xD9, CHR 0x8B, CHR 0x21]"

definition msg_unknown :: string where
  "msg_unknown =
     [CHR 0xD8, CHR 0xBA, CHR 0xD9, CHR 0x8A, CHR 0xD8, CHR 0xB1, CHR 0x20, CHR 0xD9, CHR 0x85,
      CHR 0xD8, CHR 0xB9, CHR 0xD8, CHR 0xB1, CHR 0xD9, CHR 0x88, CHR 0xD9, CHR 0x81]"

definition msg_checked_in :: string where
  "msg_checked_in =
     [CHR 0xD8, CHR 0xAA, CHR 0xD9, CHR 0x85, CHR 0x20, CHR 0xD8, CHR 0xAA, CHR 0xD8, CHR 0xB3,
      CHR 0xD8, CHR 0xAC, CHR 0xD9, CHR 0x8A, CHR 0xD9, CHR 0x84, CHR 0x20, CHR 0xD8, CHR 0xAD,
      CHR 0xD8, CHR 0xB6, CHR 0xD9, CHR 0x88, CHR 0xD8, CHR 0xB1, CHR 0x3A, CHR 0x20]"

definition msg_check_in_ok :: string where
  "msg_check_in_ok =
     [CHR 0xD8, CHR 0xAA, CHR 0xD9, CHR 0x85, CHR 0x20, CHR 0xD8, CHR 0xAA, CHR 0xD8, CHR 0xB3,
      CHR 0xD8, CHR 0xAC, CHR 0xD9, CHR 0x8A, CHR 0xD9, CHR 0x84, CHR 0x20, CHR 0xD8, CHR 0xA7,
      CHR 0xD9, CHR 0x84, CHR 0xD8, CHR 0xAD, CHR 0xD8, CHR 0xB6, CHR 0xD9, CHR 0x88, CHR 0xD8,
      CHR 0xB1, CHR 0x20, CHR 0xD8, CHR 0xA8, CHR 0xD9, CHR 0x86, CHR 0xD8, CHR 0xAC, CHR 0xD8,
      CHR 0xA7, CHR 0xD8, CHR 0xAD]"

definition key_name_ar :: string where
  "key_name_ar =
     [CHR 0xD8, CHR 0xA7, CHR 0xD9, CHR 0x84, CHR 0xD8, CHR 0xA7, CHR 0xD8, CHR 0xB3, CHR 0xD9,
      CHR 0x85]"

definition key_phone_ar :: string where
  "key_phone_ar =
     [CHR 0xD8, CHR 0xA7, CHR 0xD9, CHR 0x84, CHR 0xD8, CHR 0xAC, CHR 0xD9, CHR 0x88, CHR 0xD8,
      CHR 0xA7, CHR 0xD9, CHR 0x84]"

definition key_category_ar :: string where
  "key_category_ar =
     [CHR 0xD8, CHR 0xA7, CHR 0xD9, CHR 0x84, CHR 0xD9, CHR 0x81, CHR 0xD8, CHR 0xA6, CHR 0xD8,
      CHR 0xA9]"

definition key_companions_ar :: string where
  "key_companions_ar =
     [CHR 0xD8, CHR 0xB9, CHR 0xD8, CHR 0xAF, CHR 0xD8, CHR 0xAF, CHR 0x20, CHR 0xD8, CHR 0xA7,
      CHR 0xD9, CHR 0x84, CHR 0xD9, CHR 0x85, CHR 0xD8, CHR 0xB1, CHR 0xD8, CHR 0xA7, CHR 0xD9,
      CHR 0x81, CHR 0xD9, CHR 0x82, CHR 0xD9, CHR 0x8A, CHR 0xD9, CHR 0x86]"

definition key_notes_ar :: string where
  "key_notes_ar =
     [CHR 0xD9, CHR 0x85, CHR 0xD9, CHR 0x84, CHR 0xD8, CHR 0xA7, CHR 0xD8, CHR 0xAD, CHR 0xD8,
      CHR 0xB8, CHR 0xD8, CHR 0xA7, CHR 0xD8, CHR 0xAA]"

section \<open>The five tables\<close>

text \<open>
  \<^verbatim>\<open>shared/schema.ts\<close> declares the tables; the rows below carry the columns that
  \<^verbatim>\<open>server/routes.ts\<close> and \<^verbatim>\<open>server/storage.ts\<close> read or write. Identifiers are
  strings. A table is the list of its rows in insertion order: \<^verbatim>\<open>select ... where\<close>
  is \<open>filter\<close>, the destructuring \<^verbatim>\<open>const [row] = ...\<close> takes the first hit
  (\<open>find\<close>), an \<^verbatim>\<open>update ... where\<close> rewrites every hit. Every storage call is
  taken to complete, with one exception that the model keeps: an event whose date is an
  Invalid Date cannot be written (\<open>createEvent\<close> below). The other \<^verbatim>\<open>catch\<close>
  branches of the routes, which answer 500 when the database is out of reach, are outside
  the model.
\<close>

text \<open>
  Modelled from the spec: the table declarations of \<^verbatim>\<open>shared/schema.ts\<close>, which
  are not among the sources at hand. The columns are those of section 3 of the
  specification. Section 4.4 says that a duplicate assignment is not rejected, so the
  table of assignments carries no uniqueness constraint on the pair and an insert always
  adds a row; no constraint between tables is modelled either. A new guest starts as not
  checked in, with no time and no actor (section 4.5, state Invited).
\<close>

record user =
  u_id :: string
  u_username :: string
  u_password :: string
  u_name :: string
  u_role :: string
  u_isActive :: bool
  u_createdById :: "string option"
  u_eventQuota :: int

record insert_user =
  iu_username :: string
  iu_password :: string
  iu_name :: string
  iu_role :: string
  iu_isActive :: bool
  iu_createdById :: "string option"
  iu_eventQuota :: int

text \<open>
  A JavaScript \<^verbatim>\<open>Date\<close> is either a point in time, in milliseconds since the epoch,
  or the Invalid Date that \<^verbatim>\<open>new Date\<close> builds from a string it cannot read.
\<close>

datatype js_date = Invalid_Date | Date nat

record event =
  e_id :: string
  e_name :: string
  e_date :: nat
  e_location :: "string option"
  e_eventManagerId :: string
  e_isActive :: bool

record insert_event =
  ie_name :: string
  ie_date :: js_date
  ie_location :: "string option"
  ie_eventManagerId :: string
  ie_isActive :: bool

record guest =
  g_id :: string
  g_eventId :: string
  g_name :: string
  g_phone :: string
  g_category :: string
  g_companions :: int
  g_notes :: string
  g_qrCode :: string
  g_isCheckedIn :: bool
  g_checkedInAt :: "nat option"
  g_checkedInBy :: "string option"

record insert_guest =
  ig_eventId :: string
  ig_name :: string
  ig_phone :: string
  ig_category :: string
  ig_companions :: int
  ig_notes :: string
  ig_qrCode :: string

record event_organizer =
  a_eventId :: string
  a_organizerId :: string

record audit_log =
  l_eventId :: string
  l_userId :: string
  l_action :: string
  l_details :: string
  l_guestId :: "string option"

record db =
  users :: "user list"
  events :: "event list"
  guests :: "guest list"
  eventOrganizers :: "event_organizer list"
  auditLogs :: "audit_log list"

type_synonym session = "string option"

section \<open>What a route answers\<close>

datatype reply =
    Failure nat string
  | LoginOk user
  | UserCreated user
  | EventCreated event
  | GuestsUploaded nat "guest list"
  | CheckInInvalid string
  | CheckInDuplicate guest string "nat option" string
  | CheckInSuccess "guest option" string
  | OrganizerAssigned event_organizer
  | OrganizerRemoved

text \<open>
  \<open>Failure c m\<close> is \<^verbatim>\<open>res.status(c).json({ error: m })\<close>. \<open>CheckInInvalid\<close> is the
  404 answer with \<^verbatim>\<open>status: "invalid"\<close>; \<open>CheckInDuplicate g m at by\<close> and
  \<open>CheckInSuccess g m\<close> are the two 200 answers of the check-in route with their
  \<^verbatim>\<open>guest\<close>, \<^verbatim>\<open>message\<close>, \<^verbatim>\<open>checkedInAt\<close> and \<^verbatim>\<open>checkedInBy\<close>
  members.
\<close>

section \<open>JavaScript truthiness of an optional string\<close>

definition falsy :: "string option \<Rightarrow> bool" where
  "falsy v = (case v of None \<Rightarrow> True | Some s \<Rightarrow> s = [])"

definition str :: "string option \<Rightarrow> string" where
  "str v = (case v of None \<Rightarrow> [] | Some s \<Rightarrow> s)"

section \<open>server/storage.ts\<close>

definition getUser :: "db \<Rightarrow> string \<Rightarrow> user option" where
  "getUser d i = find (\<lambda>u. u_id u = i) (users d)"

definition getUserByUsername :: "db \<Rightarrow> string \<Rightarrow> user option" where
  "getUserByUsername d n = find (\<lambda>u. u_username u = n) (users d)"

definition new_user :: "string \<Rightarrow> insert_user \<Rightarrow> user" where
  "new_user i x =
     \<lparr>u_id = i, u_username = iu_username x, u_password = iu_password x, u_name = iu_name x,
      u_role = iu_role x, u_isActive = iu_isActive x, u_createdById = iu_createdById x,
      u_eventQuota = iu_eventQuota x\<rparr>"

definition createUser :: "db \<Rightarrow> string \<Rightarrow> insert_user \<Rightarrow> db \<times> user" where
  "createUser d i x = (d\<lparr>users := users d @ [new_user i x]\<rparr>, new_user i x)"

definition getEvent :: "db \<Rightarrow> string \<Rightarrow> event option" where
  "getEvent d i = find (\<lambda>e. e_id e = i) (events d)"

text \<open>
  The driver writes a date column as \<^verbatim>\<open>value.toISOString()\<close>, which throws on an
  Invalid Date: \<open>createEvent\<close> then stores nothing and has no result (\<open>None\<close>), and
  the caller's \<^verbatim>\<open>catch\<close> runs.
\<close>

definition new_event :: "string \<Rightarrow> insert_event \<Rightarrow> nat \<Rightarrow> event" where
  "new_event i x t =
     \<lparr>e_id = i, e_name = ie_name x, e_date = t, e_location = ie_location x,
      e_eventManagerId = ie_eventManagerId x, e_isActive = ie_isActive x\<rparr>"

definition createEvent :: "db \<Rightarrow> string \<Rightarrow> insert_event \<Rightarrow> (db \<times> event) option" where
  "createEvent d i x =
     (case ie_date x of
        Invalid_Date \<Rightarrow> None
      | Date t \<Rightarrow> Some (d\<lparr>events := events d @ [new_event i x t]\<rparr>, new_event i x t))"

definition getGuest :: "db \<Rightarrow> string \<Rightarrow> guest option" where
  "getGuest d i = find (\<lambda>g. g_id g = i) (guests d)"

definition new_guest :: "string \<Rightarrow> insert_guest \<Rightarrow> guest" where
  "new_guest i x =
     \<lparr>g_id = i, g_eventId = ig_eventId x, g_name = ig_name x, g_phone = ig_phone x,
      g_category = ig_category x, g_companions = ig_companions x, g_notes = ig_notes x,
      g_qrCode = ig_qrCode x, g_isCheckedIn = False, g_checkedInAt = None,
      g_checkedInBy = None\<rparr>"

definition createGuests :: "db \<Rightarrow> (nat \<Rightarrow> string) \<Rightarrow> insert_guest list \<Rightarrow> db \<times> guest list" where
  "createGuests d ids xs =
     (if xs = [] then (d, [])
      else let rows = map (\<lambda>(k, x). new_guest (ids k) x) (enumerate 0 xs)
           in (d\<lparr>guests := guests d @ rows\<rparr>, rows))"

definition mark_checked_in :: "string \<Rightarrow> nat \<Rightarrow> guest \<Rightarrow> guest" where
  "mark_checked_in organizerId now g =
     g\<lparr>g_isCheckedIn := True, g_checkedInAt := Some now, g_checkedInBy := Some organizerId\<rparr>"

definition checkInGuest :: "db \<Rightarrow> nat \<Rightarrow> string \<Rightarrow> string \<Rightarrow> db \<times> guest option" where
  "checkInGuest d now i organizerId =
     (d\<lparr>guests := map (\<lambda>g. if g_id g = i then mark_checked_in organizerId now g else g)
                      (guests d)\<rparr>,
      map_option (mark_checked_in organizerId now) (find (\<lambda>g. g_id g = i) (guests d)))"

definition getOrganizerEvents :: "db \<Rightarrow> string \<Rightarrow> event list" where
  "getOrganizerEvents d organizerId =
     (let assignments = filter (\<lambda>a. a_organizerId a = organizerId) (eventOrganizers d)
      in if assignments = [] then []
         else filter e_isActive
                (List.map_filter (\<lambda>i. getEvent d i) (map a_eventId assignments)))"

definition assignOrganizer :: "db \<Rightarrow> event_organizer \<Rightarrow> db \<times> event_organizer" where
  "assignOrganizer d a = (d\<lparr>eventOrganizers := eventOrganizers d @ [a]\<rparr>, a)"

definition removeOrganizer :: "db \<Rightarrow> string \<Rightarrow> string \<Rightarrow> db" where
  "removeOrganizer d eventId organizerId =
     d\<lparr>eventOrganizers :=
         filter (\<lambda>a. \<not> (a_eventId a = eventId \<and> a_organizerId a = organizerId))
           (eventOrganizers d)\<rparr>"

definition createAuditLog :: "db \<Rightarrow> audit_log \<Rightarrow> db" where
  "createAuditLog d l = d\<lparr>auditLogs := auditLogs d @ [l]\<rparr>"

section \<open>The middleware of server/routes.ts\<close>

definition requireAuth :: "session \<Rightarrow> reply option" where
  "requireAuth s = (if falsy s then Some (Failure 401 msg_unauthorized) else None)"

definition requireRole :: "string list \<Rightarrow> db \<Rightarrow> session \<Rightarrow> reply + user" where
  "requireRole roles d s =
     (if falsy s then Inl (Failure 401 msg_unauthorized)
      else case getUser d (str s) of
             None \<Rightarrow> Inl (Failure 403 msg_forbidden)
           | Some u \<Rightarrow> if u_role u \<in> set roles then Inr u
                       else Inl (Failure 403 msg_forbidden))"

text \<open>
  A user is sent back as \<^verbatim>\<open>{ ...user, password: undefined }\<close>; the missing
  password is the empty string here.
\<close>

definition strip_password :: "user \<Rightarrow> user" where
  "strip_password u = u\<lparr>u_password := []\<rparr>"

section \<open>POST /api/auth/login\<close>

text \<open>
  \<open>H\<close> is \<^verbatim>\<open>hashPassword\<close> (SHA-256 in hexadecimal), kept as a parameter. The
  result is the session after the call and the reply.
\<close>

definition login ::
  "(string \<Rightarrow> string) \<Rightarrow> db \<Rightarrow> session \<Rightarrow> string option \<Rightarrow> string option \<Rightarrow> session \<times> reply" where
  "login H d s username password =
     (if falsy username \<or> falsy password then (s, Failure 400 msg_missing_data)
      else let user = getUserByUsername d (str username);
               hashedPassword = H (str password)
           in case user of
                None \<Rightarrow> (s, Failure 401 msg_invalid_credentials)
              | Some u \<Rightarrow>
                  if u_password u \<noteq> hashedPassword
                  then (s, Failure 401 msg_invalid_credentials)
                  else if \<not> u_isActive u then (s, Failure 403 msg_account_disabled)
                  else (Some (u_id u), LoginOk (strip_password u)))"

section \<open>POST /api/guests/:id/check-in\<close>

definition organizer_blocked :: "db \<Rightarrow> user \<Rightarrow> guest \<Rightarrow> bool" where
  "organizer_blocked d u g =
     (u_role u = ''organizer'' \<and>
      \<not> list_ex (\<lambda>e. e_id e = g_eventId g) (getOrganizerEvents d (u_id u)))"

definition duplicate_reply :: "db \<Rightarrow> guest \<Rightarrow> reply" where
  "duplicate_reply d g =
     (let checkedInByUser = (case g_checkedInBy g of
                               None \<Rightarrow> None
                             | Some i \<Rightarrow> if i = [] then None else getUser d i)
      in CheckInDuplicate g msg_already_used (g_checkedInAt g)
           (case checkedInByUser of
              None \<Rightarrow> msg_unknown
            | Some c \<Rightarrow> if u_name c = [] then msg_unknown else u_name c))"

definition check_in_log :: "user \<Rightarrow> guest \<Rightarrow> audit_log" where
  "check_in_log u g =
     \<lparr>l_eventId = g_eventId g, l_userId = u_id u, l_action = ''check_in'',
      l_details = msg_checked_in @ g_name g, l_guestId = Some (g_id g)\<rparr>"

definition post_check_in :: "db \<Rightarrow> nat \<Rightarrow> session \<Rightarrow> string \<Rightarrow> db \<times> reply" where
  "post_check_in d now s i =
     (case requireRole [''organizer'', ''event_manager''] d s of
        Inl r \<Rightarrow> (d, r)
      | Inr u \<Rightarrow>
          (case getGuest d i of
             None \<Rightarrow> (d, CheckInInvalid msg_guest_not_found)
           | Some g \<Rightarrow>
               if organizer_blocked d u g then (d, Failure 403 msg_forbidden)
               else if g_isCheckedIn g then (d, duplicate_reply d g)
               else let (d1, updatedGuest) = checkInGuest d now i (u_id u);
                        d2 = createAuditLog d1 (check_in_log u g)
                    in (d2, CheckInSuccess updatedGuest msg_check_in_ok)))"

section \<open>POST /api/users\<close>

text \<open>
  \<open>valid\<close> is \<^verbatim>\<open>insertUserSchema.safeParse(req.body).success\<close>; the schema is
  declared in \<^verbatim>\<open>shared/schema.ts\<close> and stays a parameter. \<open>newId\<close> is the
  identifier that the database gives the inserted row. The body is a row to insert; the
  route overrides its password and its creator.
\<close>

definition post_users ::
  "(string \<Rightarrow> string) \<Rightarrow> (insert_user \<Rightarrow> bool) \<Rightarrow> string \<Rightarrow> db \<Rightarrow> session \<Rightarrow> insert_user
     \<Rightarrow> db \<times> reply" where
  "post_users H valid newId d s body =
     (case requireAuth s of
        Some r \<Rightarrow> (d, r)
      | None \<Rightarrow>
          (case getUser d (str s) of
             None \<Rightarrow> (d, Failure 401 msg_unauthorized)
           | Some currentUser \<Rightarrow>
               let role = iu_role body in
               if role = ''admin'' \<and> u_role currentUser \<noteq> ''super_admin''
               then (d, Failure 403 msg_forbidden)
               else if role = ''event_manager'' \<and>
                       u_role currentUser \<notin> set [''super_admin'', ''admin'']
               then (d, Failure 403 msg_forbidden)
               else if role = ''organizer'' \<and> u_role currentUser \<noteq> ''event_manager''
               then (d, Failure 403 msg_forbidden)
               else if \<not> valid body then (d, Failure 400 msg_invalid_data)
               else (case getUserByUsername d (iu_username body) of
                       Some existingUser \<Rightarrow> (d, Failure 400 msg_username_taken)
                     | None \<Rightarrow>
                         let (d1, newUser) =
                               createUser d newId
                                 (body\<lparr>iu_password := H (iu_password body),
                                       iu_createdById := Some (u_id currentUser)\<rparr>)
                         in (d1, UserCreated (strip_password newUser)))))"

section \<open>POST /api/events\<close>

text \<open>
  The body's \<^verbatim>\<open>name\<close>, \<^verbatim>\<open>date\<close> and \<^verbatim>\<open>location\<close> may be absent.
  \<open>newDate\<close> is \<^verbatim>\<open>new Date\<close> on a string and stays a parameter. A date string
  that is present is turned into a \<^verbatim>\<open>Date\<close> object, which is truthy even when it
  is the Invalid Date; the test for the required fields lets it through, the insert
  throws, and the route's \<^verbatim>\<open>catch\<close> answers 500.
\<close>

record event_body =
  eb_name :: "string option"
  eb_date :: "string option"
  eb_location :: "string option"

definition create_event_log :: "user \<Rightarrow> event \<Rightarrow> audit_log" where
  "create_event_log u e =
     \<lparr>l_eventId = e_id e, l_userId = u_id u, l_action = ''create_event'',
      l_details = msg_event_created @ e_name e, l_guestId = None\<rparr>"

definition post_events ::
  "(string \<Rightarrow> js_date) \<Rightarrow> string \<Rightarrow> db \<Rightarrow> session \<Rightarrow> event_body \<Rightarrow> db \<times> reply" where
  "post_events newDate newId d s body =
     (case requireRole [''event_manager''] d s of
        Inl r \<Rightarrow> (d, r)
      | Inr u \<Rightarrow>
          (case (if falsy (eb_date body) then None else Some (newDate (str (eb_date body)))) of
             None \<Rightarrow> (d, Failure 400 msg_name_date_required)
           | Some date \<Rightarrow>
               if falsy (eb_name body) then (d, Failure 400 msg_name_date_required)
               else (case createEvent d newId
                            \<lparr>ie_name = str (eb_name body), ie_date = date,
                             ie_location = eb_location body, ie_eventManagerId = u_id u,
                             ie_isActive = True\<rparr> of
                       None \<Rightarrow> (d, Failure 500 msg_event_failed)
                     | Some (d1, ev) \<Rightarrow>
                         (createAuditLog d1 (create_event_log u ev), EventCreated ev))))"

section \<open>POST /api/events/:id/upload-guests\<close>

text \<open>
  A row of the sheet maps a column header to a cell. A cell is a string, a number or a
  boolean. The numbers of JavaScript are not modelled: \<open>'n\<close> stands for them, and what
  the route asks of a number is a parameter, as is the rest of the language's library
  that the route calls:
  \<^item> \<open>js_number_truthy\<close>: whether a number is truthy (not zero and not NaN);
  \<^item> \<open>js_number_String\<close>: \<^verbatim>\<open>String(x)\<close> of a number;
  \<^item> \<open>js_lower_beyond_ascii\<close>: \<^verbatim>\<open>s.toLowerCase()\<close> of a string that holds a byte
    outside ASCII;
  \<^item> \<open>js_parseInt\<close>: \<^verbatim>\<open>parseInt(s)\<close>, \<open>None\<close> for NaN.

  \<^verbatim>\<open>a || b\<close> keeps \<open>a\<close> unless it is absent or falsy. On a string of ASCII bytes
  \<^verbatim>\<open>toLowerCase\<close> turns the letters A to Z into a to z and keeps every other byte.
\<close>

datatype 'n cell = Str string | Num 'n | Bool bool

type_synonym 'n row = "string \<Rightarrow> 'n cell option"

record 'n js =
  js_number_truthy :: "'n \<Rightarrow> bool"
  js_number_String :: "'n \<Rightarrow> string"
  js_lower_beyond_ascii :: "string \<Rightarrow> string"
  js_parseInt :: "string \<Rightarrow> int option"

fun truthy :: "'n js \<Rightarrow> 'n cell option \<Rightarrow> bool" where
  "truthy J None = False"
| "truthy J (Some (Str s)) = (s \<noteq> [])"
| "truthy J (Some (Num n)) = js_number_truthy J n"
| "truthy J (Some (Bool b)) = b"

fun first_truthy :: "'n js \<Rightarrow> 'n cell option list \<Rightarrow> 'n cell \<Rightarrow> 'n cell" where
  "first_truthy J [] dflt = dflt"
| "first_truthy J (c # cs) dflt =
     (if truthy J c then (case c of Some v \<Rightarrow> v | None \<Rightarrow> dflt)
      else first_truthy J cs dflt)"

fun String :: "'n js \<Rightarrow> 'n cell \<Rightarrow> string" where
  "String J (Str s) = s"
| "String J (Num n) = js_number_String J n"
| "String J (Bool b) = (if b then ''true'' else ''false'')"

definition lower_char :: "char \<Rightarrow> char" where
  "lower_char c =
     (case map_of (zip ''ABCDEFGHIJKLMNOPQRSTUVWXYZ'' ''abcdefghijklmnopqrstuvwxyz'') c of
        None \<Rightarrow> c
      | Some l \<Rightarrow> l)"

definition ascii :: "string \<Rightarrow> bool" where
  "ascii s = list_all (\<lambda>c. \<not> digit7 c) s"

definition toLowerCase :: "'n js \<Rightarrow> string \<Rightarrow> string" where
  "toLowerCase J s = (if ascii s then map lower_char s else js_lower_beyond_ascii J s)"

text \<open>
  \<open>qr\<close> is the \<^verbatim>\<open>randomUUID()\<close> drawn for the row.
\<close>

definition guest_of_row :: "'n js \<Rightarrow> string \<Rightarrow> string \<Rightarrow> 'n row \<Rightarrow> insert_guest" where
  "guest_of_row J eventId qr r =
     \<lparr>ig_eventId = eventId,
      ig_name = String J (first_truthy J [r key_name_ar, r ''Name'', r ''name''] (Str [])),
      ig_phone = String J (first_truthy J [r key_phone_ar, r ''Phone'', r ''phone''] (Str [])),
      ig_category =
        toLowerCase J
          (String J (first_truthy J [r key_category_ar, r ''Category''] (Str ''regular''))),
      ig_companions =
        (case js_parseInt J
                (String J (first_truthy J [r key_companions_ar, r ''Companions''] (Str ''0''))) of
           None \<Rightarrow> 0
         | Some n \<Rightarrow> n),
      ig_notes = String J (first_truthy J [r key_notes_ar, r ''Notes''] (Str [])),
      ig_qrCode = qr\<rparr>"

text \<open>
  The audit entry prints the number of guests, the length of an array, in decimal.
\<close>

definition digit :: "nat \<Rightarrow> char" where
  "digit k = ''0123456789'' ! k"

fun decimal :: "nat \<Rightarrow> string" where
  "decimal n = (if n < 10 then [digit n] else decimal (n div 10) @ [digit (n mod 10)])"

definition upload_log :: "user \<Rightarrow> string \<Rightarrow> nat \<Rightarrow> audit_log" where
  "upload_log u eventId n =
     \<lparr>l_eventId = eventId, l_userId = u_id u, l_action = ''upload_guests'',
      l_details = msg_uploaded_pre @ decimal n @ msg_uploaded_post, l_guestId = None\<rparr>"

definition upload_guests ::
  "'n js \<Rightarrow> (nat \<Rightarrow> string) \<Rightarrow> (nat \<Rightarrow> string) \<Rightarrow> db \<Rightarrow> session \<Rightarrow> string
     \<Rightarrow> 'n row list option \<Rightarrow> db \<times> reply" where
  "upload_guests J uuids ids d s eventId file =
     (case requireRole [''event_manager''] d s of
        Inl r \<Rightarrow> (d, r)
      | Inr u \<Rightarrow>
          (case getEvent d eventId of
             None \<Rightarrow> (d, Failure 403 msg_forbidden)
           | Some ev \<Rightarrow>
               if e_eventManagerId ev \<noteq> u_id u then (d, Failure 403 msg_forbidden)
               else (case file of
                       None \<Rightarrow> (d, Failure 400 msg_no_file)
                     | Some data \<Rightarrow>
                         let guestsToCreate =
                               map (\<lambda>(k, r). guest_of_row J eventId (uuids k) r)
                                 (enumerate 0 data);
                             (d1, createdGuests) = createGuests d ids guestsToCreate;
                             d2 = createAuditLog d1 (upload_log u eventId (length createdGuests))
                         in (d2, GuestsUploaded (length createdGuests) createdGuests))))"

section \<open>POST and DELETE /api/events/:id/organizers\<close>

definition post_event_organizers :: "db \<Rightarrow> session \<Rightarrow> string \<Rightarrow> string \<Rightarrow> db \<times> reply" where
  "post_event_organizers d s eventId organizerId =
     (case requireRole [''event_manager''] d s of
        Inl r \<Rightarrow> (d, r)
      | Inr u \<Rightarrow>
          (case getEvent d eventId of
             None \<Rightarrow> (d, Failure 403 msg_forbidden)
           | Some ev \<Rightarrow>
               if e_eventManagerId ev \<noteq> u_id u then (d, Failure 403 msg_forbidden)
               else let (d1, assignment) =
                          assignOrganizer d \<lparr>a_eventId = eventId, a_organizerId = organizerId\<rparr>
                    in (d1, OrganizerAssigned assignment)))"

definition delete_event_organizer :: "db \<Rightarrow> session \<Rightarrow> string \<Rightarrow> string \<Rightarrow> db \<times> reply" where
  "delete_event_organizer d s eventId organizerId =
     (case requireRole [''event_manager''] d s of
        Inl r \<Rightarrow> (d, r)
      | Inr u \<Rightarrow>
          (case getEvent d eventId of
             None \<Rightarrow> (d, Failure 403 msg_forbidden)
           | Some ev \<Rightarrow>
               if e_eventManagerId ev \<noteq> u_id u then (d, Failure 403 msg_forbidden)
               else (removeOrganizer d eventId organizerId, OrganizerRemoved)))"

section \<open>The check-in route, one storage call at a time\<close>

text \<open>
  The handler is an \<^verbatim>\<open>async\<close> function: at each \<^verbatim>\<open>await\<close> on the storage it
  yields, and another request may run. \<open>pc\<close> is where a request stands between two
  storage calls, with the values it holds in its local variables; \<open>check_in_step\<close> runs
  it up to its next \<^verbatim>\<open>await\<close>. The clock is read by \<^verbatim>\<open>checkInGuest\<close> only.
\<close>

datatype pc =
    Start
  | HaveUser user
  | HaveGuest user guest
  | Cleared user guest
  | Updated user guest "guest option"
  | Done reply

fun check_in_step :: "session \<Rightarrow> string \<Rightarrow> nat \<Rightarrow> db \<Rightarrow> pc \<Rightarrow> db \<times> pc" where
  "check_in_step s i now d Start =
     (case requireRole [''organizer'', ''event_manager''] d s of
        Inl r \<Rightarrow> (d, Done r)
      | Inr u \<Rightarrow> (d, HaveUser u))"
| "check_in_step s i now d (HaveUser u) =
     (case getGuest d i of
        None \<Rightarrow> (d, Done (CheckInInvalid msg_guest_not_found))
      | Some g \<Rightarrow> (d, HaveGuest u g))"
| "check_in_step s i now d (HaveGuest u g) =
     (if organizer_blocked d u g then (d, Done (Failure 403 msg_forbidden))
      else (d, Cleared u g))"
| "check_in_step s i now d (Cleared u g) =
     (if g_isCheckedIn g then (d, Done (duplicate_reply d g))
      else let (d1, updatedGuest) = checkInGuest d now i (u_id u)
           in (d1, Updated u g updatedGuest))"
| "check_in_step s i now d (Updated u g updatedGuest) =
     (createAuditLog d (check_in_log u g), Done (CheckInSuccess updatedGuest msg_check_in_ok))"
| "check_in_step s i now d (Done r) = (d, Done r)"

text \<open>
  Two requests in flight. A schedule names, step by step, which of the two runs next and
  what the clock shows.
\<close>

datatype who = First | Second

record request =
  rq_session :: session
  rq_guestId :: string

fun run2 :: "request \<Rightarrow> request \<Rightarrow> (who \<times> nat) list \<Rightarrow> db \<times> pc \<times> pc \<Rightarrow> db \<times> pc \<times> pc" where
  "run2 a b [] st = st"
| "run2 a b ((First, now) # sched) (d, pa, pb) =
     (let (d1, pa1) = check_in_step (rq_session a) (rq_guestId a) now d pa
      in run2 a b sched (d1, pa1, pb))"
| "run2 a b ((Second, now) # sched) (d, pa, pb) =
     (let (d1, pb1) = check_in_step (rq_session b) (rq_guestId b) now d pb
      in run2 a b sched (d1, pa, pb1))"

definition count_check_in_logs :: "db \<Rightarrow> string \<Rightarrow> nat" where
  "count_check_in_logs d i =
     length (filter (\<lambda>l. l_action l = ''check_in'' \<and> l_guestId l = Some i) (auditLogs d))"

definition count_assignments :: "db \<Rightarrow> string \<Rightarrow> string \<Rightarrow> nat" where
  "count_assignments d eventId organizerId =
     length (filter (\<lambda>a. a_eventId a = eventId \<and> a_organizerId a = organizerId)
               (eventOrganizers d))"

section \<open>The status member of a reply\<close>

fun status :: "reply \<Rightarrow> string option" where
  "status (CheckInInvalid m) = Some ''invalid''"
| "status (CheckInDuplicate g m at by) = Some ''duplicate''"
| "status (CheckInSuccess g m) = Some ''success''"
| "status r = None"

section \<open>A small database to run the routes on\<close>

definition admin1 :: user where
  "admin1 = \<lparr>u_id = ''a1'', u_username = ''amal'', u_password = ''hash-a'', u_name = ''Amal'',
             u_role = ''admin'', u_isActive = True, u_createdById = None, u_eventQuota = 5\<rparr>"

definition manager1 :: user where
  "manager1 = \<lparr>u_id = ''m1'', u_username = ''mona'', u_password = ''hash-m'', u_name = ''Mona'',
               u_role = ''event_manager'', u_isActive = True, u_createdById = Some ''a1'',
               u_eventQuota = 1\<rparr>"

definition manager2 :: user where
  "manager2 = \<lparr>u_id = ''m2'', u_username = ''majid'', u_password = ''hash-n'', u_name = ''Majid'',
               u_role = ''event_manager'', u_isActive = True, u_createdById = Some ''a1'',
               u_eventQuota = 5\<rparr>"

definition organizer1 :: user where
  "organizer1 = \<lparr>u_id = ''o1'', u_username = ''omar'', u_password = ''hash-o'', u_name = ''Omar'',
                 u_role = ''organizer'', u_isActive = True, u_createdById = Some ''m1'',
                 u_eventQuota = 5\<rparr>"

definition organizer2 :: user where
  "organizer2 = \<lparr>u_id = ''o2'', u_username = ''ola'', u_password = ''hash-p'', u_name = [],
                 u_role = ''organizer'', u_isActive = False, u_createdById = Some ''m1'',
                 u_eventQuota = 5\<rparr>"

definition organizer3 :: user where
  "organizer3 = \<lparr>u_id = ''o3'', u_username = ''osama'', u_password = ''hash-q'', u_name = ''Osama'',
                 u_role = ''organizer'', u_isActive = True, u_createdById = Some ''m1'',
                 u_eventQuota = 5\<rparr>"

definition event1 :: event where
  "event1 = \<lparr>e_id = ''e1'', e_name = ''Gala'', e_date = 1740787200000, e_location = None,
             e_eventManagerId = ''m1'', e_isActive = True\<rparr>"

definition event2 :: event where
  "event2 = \<lparr>e_id = ''e2'', e_name = ''Forum'', e_date = 1704067200000, e_location = None,
             e_eventManagerId = ''m1'', e_isActive = False\<rparr>"

definition guest1 :: guest where
  "guest1 = \<lparr>g_id = ''g1'', g_eventId = ''e1'', g_name = ''Huda'', g_phone = ''0500000001'',
             g_category = ''vip'', g_companions = 0, g_notes = [], g_qrCode = ''qr-1'',
             g_isCheckedIn = False, g_checkedInAt = None, g_checkedInBy = None\<rparr>"

definition guest2 :: guest where
  "guest2 = \<lparr>g_id = ''g2'', g_eventId = ''e1'', g_name = ''Hani'', g_phone = ''0500000002'',
             g_category = ''regular'', g_companions = 2, g_notes = [], g_qrCode = ''qr-2'',
             g_isCheckedIn = True, g_checkedInAt = Some 100, g_checkedInBy = Some ''o1''\<rparr>"

definition guest3 :: guest where
  "guest3 = \<lparr>g_id = ''g3'', g_eventId = ''e1'', g_name = ''Hala'', g_phone = ''0500000003'',
             g_category = ''media'', g_companions = 0, g_notes = [], g_qrCode = ''qr-3'',
             g_isCheckedIn = True, g_checkedInAt = Some 120, g_checkedInBy = Some ''o2''\<rparr>"

definition guest4 :: guest where
  "guest4 = \<lparr>g_id = ''g4'', g_eventId = ''e2'', g_name = ''Hind'', g_phone = ''0500000004'',
             g_category = ''regular'', g_companions = 0, g_notes = [], g_qrCode = ''qr-4'',
             g_isCheckedIn = False, g_checkedInAt = None, g_checkedInBy = None\<rparr>"

text \<open>
  \<^verbatim>\<open>new Date\<close> on the two date strings that the examples pass: the first is
  midnight of 1 June 2025 in universal time, the second cannot be read. No other string is
  passed to it.
\<close>

definition example_dates :: "string \<Rightarrow> js_date" where
  "example_dates s = (if s = ''2025-06-01'' then Date 1748736000000 else Invalid_Date)"

text \<open>
  The rows of the examples hold ASCII text cells only, so the parameters for numbers and
  for text beyond ASCII are never asked; \<^verbatim>\<open>parseInt\<close> is asked for the companions
  of a row that names none and answers 0.
\<close>

definition example_js :: "int js" where
  "example_js =
     \<lparr>js_number_truthy = (\<lambda>n. n \<noteq> 0), js_number_String = (\<lambda>n. []),
      js_lower_beyond_ascii = (\<lambda>s. s),
      js_parseInt = (\<lambda>s. if s = ''0'' then Some 0 else None)\<rparr>"

definition db0 :: db where
  "db0 = \<lparr>users = [admin1, manager1, manager2, organizer1, organizer2, organizer3],
          events = [event1, event2],
          guests = [guest1, guest2, guest3, guest4],
          eventOrganizers = [\<lparr>a_eventId = ''e1'', a_organizerId = ''o1''\<rparr>,
                             \<lparr>a_eventId = ''e1'', a_organizerId = ''o2''\<rparr>],
          auditLogs = []\<rparr>"

section \<open>Unfolding sets and first facts\<close>

lemmas storage_defs =
  getUser_def getUserByUsername_def getGuest_def getEvent_def getOrganizerEvents_def
  checkInGuest_def createAuditLog_def createUser_def createEvent_def createGuests_def
  assignOrganizer_def removeOrganizer_def new_user_def new_guest_def new_event_def
  mark_checked_in_def
  List.map_filter_def

lemmas route_defs =
  requireAuth_def requireRole_def falsy_def str_def strip_password_def organizer_blocked_def
  duplicate_reply_def check_in_log_def create_event_log_def upload_log_def

lemmas example_defs =
  db0_def admin1_def manager1_def manager2_def organizer1_def organizer2_def organizer3_def
  event1_def event2_def guest1_def guest2_def guest3_def guest4_def

lemma requireRole_Inl:
  "requireRole roles d s = Inl r \<Longrightarrow>
     r = Failure 401 msg_unauthorized \<or> r = Failure 403 msg_forbidden"
  by (auto simp: requireRole_def split: if_splits option.splits)

lemma requireRole_Inr:
  "requireRole roles d s = Inr u \<Longrightarrow>
     \<not> falsy s \<and> getUser d (str s) = Some u \<and> u_role u \<in> set roles"
  by (auto simp: requireRole_def split: if_splits option.splits)

lemma find_id_Some:
  "find P xs = Some x \<Longrightarrow> P x \<and> x \<in> set xs"
  by (induction xs) (auto split: if_splits)

section \<open>Check-in of an unknown guest\<close>

text \<open>
  The claim C9 as it is worded fails for a caller whom the role check of the route
  refuses: the middleware runs before the guest is looked up. Admin a1 asks to check in
  the unknown id g9 and is answered 403, and a request with no session is answered 401;
  neither reply has the status "invalid".
\<close>

theorem check_in_unknown_guest_refused_counterexample:
  "getGuest db0 ''g9'' = None
   \<and> getUser db0 ''a1'' = Some admin1
   \<and> post_check_in db0 7 (Some ''a1'') ''g9'' = (db0, Failure 403 msg_forbidden)
   \<and> post_check_in db0 7 None ''g9'' = (db0, Failure 401 msg_unauthorized)
   \<and> status (Failure 403 msg_forbidden) \<noteq> Some ''invalid''
   \<and> status (Failure 401 msg_unauthorized) \<noteq> Some ''invalid''"
  by (simp add: post_check_in_def requireRole_def getUser_def getGuest_def falsy_def str_def
                example_defs)

text \<open>
  C9, as the route has it. When the guest id resolves to no stored guest, the check-in
  route leaves the database as it was; for a caller whom the role check admits (an
  account with the role organizer or event manager) it answers the 404 reply whose status
  is "invalid" with the text "guest not found", and for any other caller it answers the
  refusal of the role check; in no case is the status "success" or "duplicate".
\<close>

theorem check_in_unknown_guest_invalid:
  assumes "getGuest d i = None"
  shows "post_check_in d now s i =
           (d, case requireRole [''organizer'', ''event_manager''] d s of
                 Inl r \<Rightarrow> r
               | Inr u \<Rightarrow> CheckInInvalid msg_guest_not_found)
         \<and> status (snd (post_check_in d now s i)) \<noteq> Some ''success''
         \<and> status (snd (post_check_in d now s i)) \<noteq> Some ''duplicate''"
  using assms
  by (auto simp: post_check_in_def split: sum.splits dest!: requireRole_Inl)

theorem check_in_unknown_guest_invalid_witness:
  "getGuest db0 ''g9'' = None
   \<and> post_check_in db0 7 (Some ''o1'') ''g9'' = (db0, CheckInInvalid msg_guest_not_found)
   \<and> status (snd (post_check_in db0 7 (Some ''o1'') ''g9'')) \<noteq> Some ''success''
   \<and> status (snd (post_check_in db0 7 (Some ''o1'') ''g9'')) \<noteq> Some ''duplicate''"
proof -
  have absent: "getGuest db0 ''g9'' = None"
    by (simp add: getGuest_def example_defs)
  have role_ok: "requireRole [''organizer'', ''event_manager''] db0 (Some ''o1'') = Inr organizer1"
    by (simp add: requireRole_def getUser_def falsy_def str_def example_defs)
  show ?thesis
    using check_in_unknown_guest_invalid [OF absent, of 7 "Some ''o1''"] absent role_ok
    by simp
qed

section \<open>Check-in of a guest who is already checked in\<close>

text \<open>
  C4, as the route has it. For a caller whom the role check and the organizer's
  assignment check let through, and a stored guest who is already checked in, the route
  answers "duplicate" with the guest, the stored check-in time and a name: the display
  name of the account that \<^verbatim>\<open>checkedInBy\<close> resolves to when that name is not empty,
  and the text "unknown" when \<^verbatim>\<open>checkedInBy\<close> is unset, resolves to no account, or
  resolves to an account whose display name is empty. The database, and with it the guest
  and the audit log, is returned unchanged.
\<close>

theorem check_in_duplicate_reply:
  assumes "requireRole [''organizer'', ''event_manager''] d s = Inr u"
    and "getGuest d i = Some g"
    and "\<not> organizer_blocked d u g"
    and "g_isCheckedIn g"
  shows "post_check_in d now s i =
           (d, CheckInDuplicate g msg_already_used (g_checkedInAt g)
                 (case g_checkedInBy g of
                    None \<Rightarrow> msg_unknown
                  | Some c \<Rightarrow>
                      if c = [] then msg_unknown
                      else (case getUser d c of
                              None \<Rightarrow> msg_unknown
                            | Some w \<Rightarrow> if u_name w = [] then msg_unknown else u_name w)))"
  using assms
  by (simp add: post_check_in_def duplicate_reply_def split: option.splits)

theorem check_in_duplicate_reply_witness:
  "requireRole [''organizer'', ''event_manager''] db0 (Some ''o1'') = Inr organizer1
   \<and> getGuest db0 ''g2'' = Some guest2
   \<and> \<not> organizer_blocked db0 organizer1 guest2
   \<and> g_isCheckedIn guest2
   \<and> post_check_in db0 7 (Some ''o1'') ''g2'' =
       (db0, CheckInDuplicate guest2 msg_already_used (Some 100) ''Omar'')"
proof -
  have role_ok: "requireRole [''organizer'', ''event_manager''] db0 (Some ''o1'') = Inr organizer1"
    by (simp add: requireRole_def getUser_def falsy_def str_def example_defs)
  have found: "getGuest db0 ''g2'' = Some guest2"
    by (simp add: getGuest_def example_defs)
  have access: "\<not> organizer_blocked db0 organizer1 guest2"
    by (simp add: organizer_blocked_def storage_defs example_defs)
  have used: "g_isCheckedIn guest2"
    by (simp add: guest2_def)
  have who: "getUser db0 ''o1'' = Some organizer1"
    by (simp add: getUser_def example_defs)
  have "post_check_in db0 7 (Some ''o1'') ''g2'' =
          (db0, CheckInDuplicate guest2 msg_already_used (Some 100) ''Omar'')"
    using check_in_duplicate_reply [OF role_ok found access used, of 7] who
    by (simp add: guest2_def organizer1_def)
  with role_ok found access used show ?thesis by simp
qed

text \<open>
  The claim C4 as it is worded fails where the account that checked the guest in has an
  empty display name: guest g3 was checked in by o2, that account is stored, and the reply
  names "unknown", not the account's name.
\<close>

theorem check_in_duplicate_empty_name_counterexample:
  "getUser db0 ''o2'' = Some organizer2
   \<and> g_checkedInBy guest3 = Some ''o2''
   \<and> post_check_in db0 7 (Some ''o1'') ''g3'' =
       (db0, CheckInDuplicate guest3 msg_already_used (Some 120) msg_unknown)
   \<and> msg_unknown \<noteq> u_name organizer2"
  by (simp add: post_check_in_def route_defs storage_defs example_defs msg_unknown_def)

section \<open>Login\<close>

text \<open>
  The claim C5 as it is worded fails where one of the two calls leaves a field empty. The
  username ghost resolves to no account, and the call with the password x is answered
  401. The username mona is known and the empty password does not hash to the stored
  hash, but that call is answered 400 "missing data", before the username is looked up.
\<close>

theorem login_empty_password_counterexample:
  "getUserByUsername db0 ''ghost'' = None
   \<and> getUserByUsername db0 ''mona'' = Some manager1
   \<and> u_password manager1 \<noteq> (\<lambda>p. ''hash-'' @ p) []
   \<and> login (\<lambda>p. ''hash-'' @ p) db0 None (Some ''ghost'') (Some ''x'')
        = (None, Failure 401 msg_invalid_credentials)
   \<and> login (\<lambda>p. ''hash-'' @ p) db0 None (Some ''mona'') (Some [])
        = (None, Failure 400 msg_missing_data)
   \<and> login (\<lambda>p. ''hash-'' @ p) db0 None (Some ''ghost'') (Some ''x'')
        \<noteq> login (\<lambda>p. ''hash-'' @ p) db0 None (Some ''mona'') (Some [])"
  by (simp add: login_def getUserByUsername_def falsy_def str_def example_defs)

text \<open>
  C5, as the route has it. Take two login calls that each supply a non-empty username and
  a non-empty password, against any
  stores and sessions: in the first the username resolves to no account, in the second
  it resolves to an account whose stored hash differs from the hash of the password
  given. Both get the same reply, 401 with the one "invalid credentials" text, and
  neither session is changed. And a call is answered 403 "account disabled" exactly when
  it supplies both fields, the username resolves to an account, the hash of the password
  equals the stored one, and the account's active flag is off.
\<close>

theorem login_failures_indistinguishable:
  "(\<not> falsy n1 \<and> \<not> falsy p1 \<and> \<not> falsy n2 \<and> \<not> falsy p2
      \<and> getUserByUsername d1 (str n1) = None
      \<and> getUserByUsername d2 (str n2) = Some w \<and> u_password w \<noteq> H (str p2)
    \<longrightarrow> login H d1 s1 n1 p1 = (s1, Failure 401 msg_invalid_credentials)
        \<and> login H d2 s2 n2 p2 = (s2, Failure 401 msg_invalid_credentials)
        \<and> snd (login H d1 s1 n1 p1) = snd (login H d2 s2 n2 p2))
   \<and> ((snd (login H d s n p) = Failure 403 msg_account_disabled)
        = (\<not> falsy n \<and> \<not> falsy p
           \<and> (\<exists>a. getUserByUsername d (str n) = Some a \<and> u_password a = H (str p)
                    \<and> \<not> u_isActive a)))"
  by (auto simp: login_def Let_def split: option.splits)

theorem login_failures_indistinguishable_witness:
  "(\<not> falsy (Some ''ghost'') \<and> \<not> falsy (Some ''secret'')
      \<and> \<not> falsy (Some ''mona'') \<and> \<not> falsy (Some ''guess'')
      \<and> getUserByUsername db0 (str (Some ''ghost'')) = None
      \<and> getUserByUsername db0 (str (Some ''mona'')) = Some manager1
      \<and> u_password manager1 \<noteq> (\<lambda>p. ''hash-'' @ p) (str (Some ''guess'')))
   \<and> login (\<lambda>p. ''hash-'' @ p) db0 None (Some ''ghost'') (Some ''secret'')
        = (None, Failure 401 msg_invalid_credentials)
   \<and> login (\<lambda>p. ''hash-'' @ p) db0 None (Some ''mona'') (Some ''guess'')
        = (None, Failure 401 msg_invalid_credentials)
   \<and> snd (login (\<lambda>p. ''hash-'' @ p) db0 None (Some ''ola'') (Some ''p''))
        = Failure 403 msg_account_disabled"
proof -
  have pre:
    "\<not> falsy (Some ''ghost'') \<and> \<not> falsy (Some ''secret'')
      \<and> \<not> falsy (Some ''mona'') \<and> \<not> falsy (Some ''guess'')
      \<and> getUserByUsername db0 (str (Some ''ghost'')) = None
      \<and> getUserByUsername db0 (str (Some ''mona'')) = Some manager1
      \<and> u_password manager1 \<noteq> (\<lambda>p. ''hash-'' @ p) (str (Some ''guess''))"
    by (simp add: falsy_def str_def getUserByUsername_def example_defs)
  have off:
    "\<not> falsy (Some ''ola'') \<and> \<not> falsy (Some ''p'')
      \<and> (\<exists>a. getUserByUsername db0 (str (Some ''ola'')) = Some a
               \<and> u_password a = (\<lambda>p. ''hash-'' @ p) (str (Some ''p'')) \<and> \<not> u_isActive a)"
    by (simp add: falsy_def str_def getUserByUsername_def example_defs)
  show ?thesis
    using login_failures_indistinguishable
            [of "Some ''ghost''" "Some ''secret''" "Some ''mona''" "Some ''guess''" db0 db0
                manager1 "\<lambda>p. ''hash-'' @ p" None None db0 None "Some ''ola''" "Some ''p''"]
          pre off
    by blast
qed

section \<open>Creating an event\<close>

text \<open>
  The claim C6 as it is worded fails for a date that is given but cannot be read. Manager
  m1 sends the name Expo and the date "not-a-date": both fields are there, so the test
  for the required fields passes, but the date is the Invalid Date, nothing is stored and
  the answer is 500, not the event.
\<close>

theorem create_event_unreadable_date_counterexample:
  "requireRole [''event_manager''] db0 (Some ''m1'') = Inr manager1
   \<and> \<not> falsy (Some ''Expo'') \<and> \<not> falsy (Some ''not-a-date'')
   \<and> example_dates ''not-a-date'' = Invalid_Date
   \<and> post_events example_dates ''e3'' db0 (Some ''m1'')
        \<lparr>eb_name = Some ''Expo'', eb_date = Some ''not-a-date'', eb_location = None\<rparr>
       = (db0, Failure 500 msg_event_failed)"
  by (simp add: post_events_def createEvent_def requireRole_def getUser_def falsy_def str_def
                example_dates_def example_defs)

text \<open>
  C6, as the route has it. Let the caller pass the role check of the route as an event
  manager. If the body has a non-empty name and a non-empty date that \<^verbatim>\<open>new Date\<close>
  reads as a point in time, the route stores the event (owned by the caller, active) and
  one "create_event" audit entry and answers with the event; the caller's quota and the
  events already stored play no part. If the name or the date is absent or empty, the
  route answers 400 and the database is unchanged.
\<close>

theorem create_event_ignores_quota:
  assumes "requireRole [''event_manager''] d s = Inr u"
  shows "(\<not> falsy (eb_name body) \<and> \<not> falsy (eb_date body)
            \<and> newDate (str (eb_date body)) = Date t \<longrightarrow>
            post_events newDate newId d s body =
              (d\<lparr>events := events d @
                     [\<lparr>e_id = newId, e_name = str (eb_name body), e_date = t,
                       e_location = eb_location body, e_eventManagerId = u_id u,
                       e_isActive = True\<rparr>],
                  auditLogs := auditLogs d @
                     [\<lparr>l_eventId = newId, l_userId = u_id u, l_action = ''create_event'',
                       l_details = msg_event_created @ str (eb_name body), l_guestId = None\<rparr>]\<rparr>,
               EventCreated
                 \<lparr>e_id = newId, e_name = str (eb_name body), e_date = t,
                  e_location = eb_location body, e_eventManagerId = u_id u,
                  e_isActive = True\<rparr>))
       \<and> (falsy (eb_name body) \<or> falsy (eb_date body) \<longrightarrow>
            post_events newDate newId d s body = (d, Failure 400 msg_name_date_required))"
  using assms
  by (auto simp: post_events_def createEvent_def new_event_def createAuditLog_def
                 create_event_log_def)

theorem create_event_ignores_quota_witness:
  "requireRole [''event_manager''] db0 (Some ''m1'') = Inr manager1
   \<and> u_eventQuota manager1 = 1
   \<and> length (filter (\<lambda>e. e_eventManagerId e = ''m1'') (events db0)) = 2
   \<and> \<not> falsy (eb_name \<lparr>eb_name = Some ''Expo'', eb_date = Some ''2025-06-01'', eb_location = None\<rparr>)
   \<and> \<not> falsy (eb_date \<lparr>eb_name = Some ''Expo'', eb_date = Some ''2025-06-01'', eb_location = None\<rparr>)
   \<and> example_dates
         (str (eb_date \<lparr>eb_name = Some ''Expo'', eb_date = Some ''2025-06-01'', eb_location = None\<rparr>))
       = Date 1748736000000
   \<and> snd (post_events example_dates ''e3'' db0 (Some ''m1'')
             \<lparr>eb_name = Some ''Expo'', eb_date = Some ''2025-06-01'', eb_location = None\<rparr>)
       = EventCreated \<lparr>e_id = ''e3'', e_name = ''Expo'', e_date = 1748736000000,
                       e_location = None, e_eventManagerId = ''m1'', e_isActive = True\<rparr>
   \<and> falsy (eb_date \<lparr>eb_name = Some ''Expo'', eb_date = None, eb_location = None\<rparr>)
   \<and> post_events example_dates ''e3'' db0 (Some ''m1'')
        \<lparr>eb_name = Some ''Expo'', eb_date = None, eb_location = None\<rparr>
       = (db0, Failure 400 msg_name_date_required)"
proof -
  let ?full = "\<lparr>eb_name = Some ''Expo'', eb_date = Some ''2025-06-01'', eb_location = None\<rparr>"
  let ?bare = "\<lparr>eb_name = Some ''Expo'', eb_date = None, eb_location = None\<rparr>"
  have role_ok: "requireRole [''event_manager''] db0 (Some ''m1'') = Inr manager1"
    by (simp add: requireRole_def getUser_def falsy_def str_def example_defs)
  have used: "u_eventQuota manager1 = 1
              \<and> length (filter (\<lambda>e. e_eventManagerId e = ''m1'') (events db0)) = 2"
    by (simp add: example_defs)
  have given: "\<not> falsy (eb_name ?full) \<and> \<not> falsy (eb_date ?full)"
    by (simp add: falsy_def)
  have reads: "example_dates (str (eb_date ?full)) = Date 1748736000000"
    by (simp add: example_dates_def str_def)
  have missing: "falsy (eb_date ?bare)"
    by (simp add: falsy_def)
  have made:
    "snd (post_events example_dates ''e3'' db0 (Some ''m1'') ?full)
       = EventCreated \<lparr>e_id = ''e3'', e_name = ''Expo'', e_date = 1748736000000,
                       e_location = None, e_eventManagerId = ''m1'', e_isActive = True\<rparr>"
    using create_event_ignores_quota
            [OF role_ok, of ?full example_dates 1748736000000 "''e3''"] given reads
    by (simp add: str_def manager1_def)
  have refused:
    "post_events example_dates ''e3'' db0 (Some ''m1'') ?bare
       = (db0, Failure 400 msg_name_date_required)"
    using create_event_ignores_quota
            [OF role_ok, of ?bare example_dates 0 "''e3''"] missing
    by simp
  from role_ok used given reads missing made refused show ?thesis by simp
qed

section \<open>Rows of an uploaded guest list\<close>

text \<open>
  The claim C7 as it is worded fails on a category the schema does not know: the row's
  text is lower-cased and kept, it is not replaced by "regular".
\<close>

theorem upload_unrecognized_category_counterexample:
  "ig_category (guest_of_row example_js ''e1'' ''qr-9''
                  ((\<lambda>k. None)(''Name'' := Some (Str ''Rami''), ''Category'' := Some (Str ''Gold''))))
     = ''gold''
   \<and> ig_category (guest_of_row example_js ''e1'' ''qr-9''
                  ((\<lambda>k. None)(''Name'' := Some (Str ''Rami''), ''Category'' := Some (Str ''Gold''))))
     \<noteq> ''regular''"
  by (simp add: guest_of_row_def key_category_ar_def toLowerCase_def ascii_def lower_char_def)

text \<open>
  C7, as the route has it. For every row: when none of the name columns holds a truthy
  cell the guest's name is the empty string, and likewise for the phone; when neither
  category column holds a truthy cell the category is "regular"; when a category column
  holds a non-empty text (the Arabic header is read first, then "Category") the category
  is what \<^verbatim>\<open>toLowerCase\<close> makes of that text, whether or not it is one of the four
  known categories; and "VIP" lower-cased is "vip".
\<close>

theorem upload_row_normalisation:
  "(\<not> truthy J (r key_name_ar) \<and> \<not> truthy J (r ''Name'') \<and> \<not> truthy J (r ''name'')
      \<longrightarrow> ig_name (guest_of_row J eventId qr r) = [])
   \<and> (\<not> truthy J (r key_phone_ar) \<and> \<not> truthy J (r ''Phone'') \<and> \<not> truthy J (r ''phone'')
      \<longrightarrow> ig_phone (guest_of_row J eventId qr r) = [])
   \<and> (\<not> truthy J (r key_category_ar) \<and> \<not> truthy J (r ''Category'')
      \<longrightarrow> ig_category (guest_of_row J eventId qr r) = ''regular'')
   \<and> (\<not> truthy J (r key_category_ar) \<and> r ''Category'' = Some (Str c) \<and> c \<noteq> []
      \<longrightarrow> ig_category (guest_of_row J eventId qr r) = toLowerCase J c)
   \<and> (r key_category_ar = Some (Str c) \<and> c \<noteq> []
      \<longrightarrow> ig_category (guest_of_row J eventId qr r) = toLowerCase J c)
   \<and> toLowerCase J ''VIP'' = ''vip''"
  by (simp add: guest_of_row_def toLowerCase_def ascii_def lower_char_def)

theorem upload_row_normalisation_witness:
  "(\<not> truthy example_js (((\<lambda>k. None)(''Category'' := Some (Str ''VIP''))) key_name_ar)
      \<and> \<not> truthy example_js (((\<lambda>k. None)(''Category'' := Some (Str ''VIP''))) ''Name'')
      \<and> \<not> truthy example_js (((\<lambda>k. None)(''Category'' := Some (Str ''VIP''))) ''name''))
   \<and> ig_name (guest_of_row example_js ''e1'' ''qr-9''
                ((\<lambda>k. None)(''Category'' := Some (Str ''VIP'')))) = []
   \<and> (\<not> truthy example_js (((\<lambda>k. None)(''Category'' := Some (Str ''VIP''))) key_phone_ar)
      \<and> \<not> truthy example_js (((\<lambda>k. None)(''Category'' := Some (Str ''VIP''))) ''Phone'')
      \<and> \<not> truthy example_js (((\<lambda>k. None)(''Category'' := Some (Str ''VIP''))) ''phone''))
   \<and> ig_phone (guest_of_row example_js ''e1'' ''qr-9''
                ((\<lambda>k. None)(''Category'' := Some (Str ''VIP'')))) = []
   \<and> (\<not> truthy example_js (((\<lambda>k. None)(''Category'' := Some (Str ''VIP''))) key_category_ar)
      \<and> ((\<lambda>k. None)(''Category'' := Some (Str ''VIP'')) :: int row) ''Category''
          = Some (Str ''VIP'')
      \<and> ''VIP'' \<noteq> [])
   \<and> ig_category (guest_of_row example_js ''e1'' ''qr-9''
                ((\<lambda>k. None)(''Category'' := Some (Str ''VIP'')))) = ''vip''
   \<and> (\<not> truthy example_js (((\<lambda>k. None)(''Name'' := Some (Str ''Rami''))) key_category_ar)
      \<and> \<not> truthy example_js (((\<lambda>k. None)(''Name'' := Some (Str ''Rami''))) ''Category''))
   \<and> ig_category (guest_of_row example_js ''e1'' ''qr-9''
                ((\<lambda>k. None)(''Name'' := Some (Str ''Rami'')))) = ''regular''"
proof -
  let ?vip = "(\<lambda>k. None)(''Category'' := Some (Str ''VIP'')) :: int row"
  let ?bare = "(\<lambda>k. None)(''Name'' := Some (Str ''Rami'')) :: int row"
  have no_name: "\<not> truthy example_js (?vip key_name_ar) \<and> \<not> truthy example_js (?vip ''Name'')
                 \<and> \<not> truthy example_js (?vip ''name'')"
    by (simp add: key_name_ar_def)
  have no_phone: "\<not> truthy example_js (?vip key_phone_ar) \<and> \<not> truthy example_js (?vip ''Phone'')
                  \<and> \<not> truthy example_js (?vip ''phone'')"
    by (simp add: key_phone_ar_def)
  have cat: "\<not> truthy example_js (?vip key_category_ar) \<and> ?vip ''Category'' = Some (Str ''VIP'')
             \<and> ''VIP'' \<noteq> []"
    by (simp add: key_category_ar_def)
  have no_cat: "\<not> truthy example_js (?bare key_category_ar) \<and> \<not> truthy example_js (?bare ''Category'')"
    by (simp add: key_category_ar_def)
  note vip = upload_row_normalisation [of example_js ?vip "''e1''" "''qr-9''" "''VIP''"]
  note bare = upload_row_normalisation [of example_js ?bare "''e1''" "''qr-9''" "''VIP''"]
  have a: "ig_name (guest_of_row example_js ''e1'' ''qr-9'' ?vip) = []"
    using vip no_name by blast
  have b: "ig_phone (guest_of_row example_js ''e1'' ''qr-9'' ?vip) = []"
    using vip no_phone by blast
  have c: "ig_category (guest_of_row example_js ''e1'' ''qr-9'' ?vip) = ''vip''"
    using vip cat by metis
  have e: "ig_category (guest_of_row example_js ''e1'' ''qr-9'' ?bare) = ''regular''"
    using bare no_cat by blast
  from no_name no_phone cat no_cat a b c e show ?thesis by blast
qed

lemma enumerate_map_fuse:
  "map (\<lambda>(k, x). F k x) (enumerate n (map (\<lambda>(k, r). G k r) (enumerate n rows)))
     = map (\<lambda>(k, r). F k (G k r)) (enumerate n rows)"
  by (induction rows arbitrary: n) auto

lemma enumerate_empty: "(enumerate n xs = []) = (xs = [])"
  by (cases xs) simp_all

lemma upload_guests_one_guest_per_row:
  assumes "requireRole [''event_manager''] d s = Inr u"
    and "getEvent d eventId = Some ev"
    and "e_eventManagerId ev = u_id u"
  shows "snd (upload_guests J uuids ids d s eventId (Some data)) =
           GuestsUploaded (length data)
             (map (\<lambda>(k, r). new_guest (ids k) (guest_of_row J eventId (uuids k) r))
                (enumerate 0 data))"
  using assms
  by (simp add: upload_guests_def createGuests_def Let_def enumerate_map_fuse
                enumerate_empty)

section \<open>Assigning and removing organizers\<close>

lemma post_event_organizers_owner:
  assumes "requireRole [''event_manager''] d s = Inr u"
    and "getEvent d eventId = Some ev"
    and "e_eventManagerId ev = u_id u"
  shows "post_event_organizers d s eventId organizerId =
           (d\<lparr>eventOrganizers := eventOrganizers d @
                 [\<lparr>a_eventId = eventId, a_organizerId = organizerId\<rparr>]\<rparr>,
            OrganizerAssigned \<lparr>a_eventId = eventId, a_organizerId = organizerId\<rparr>)"
  using assms by (simp add: post_event_organizers_def assignOrganizer_def)

lemma delete_event_organizer_owner:
  assumes "requireRole [''event_manager''] d s = Inr u"
    and "getEvent d eventId = Some ev"
    and "e_eventManagerId ev = u_id u"
  shows "delete_event_organizer d s eventId organizerId =
           (removeOrganizer d eventId organizerId, OrganizerRemoved)"
  using assms by (simp add: delete_event_organizer_def)

text \<open>
  The claim C8 as it is worded fails: the owning manager assigns the same organizer to
  the same event twice, both calls are answered with the assignment, and the table then
  holds two records of the pair.
\<close>

theorem assign_twice_counterexample:
  "snd (post_event_organizers db0 (Some ''m1'') ''e1'' ''o3'')
     = OrganizerAssigned \<lparr>a_eventId = ''e1'', a_organizerId = ''o3''\<rparr>
   \<and> snd (post_event_organizers (fst (post_event_organizers db0 (Some ''m1'') ''e1'' ''o3''))
            (Some ''m1'') ''e1'' ''o3'')
     = OrganizerAssigned \<lparr>a_eventId = ''e1'', a_organizerId = ''o3''\<rparr>
   \<and> count_assignments
       (fst (post_event_organizers (fst (post_event_organizers db0 (Some ''m1'') ''e1'' ''o3''))
              (Some ''m1'') ''e1'' ''o3''))
       ''e1'' ''o3'' = 2"
  by (simp add: post_event_organizers_def assignOrganizer_def count_assignments_def
                requireRole_def getUser_def getEvent_def falsy_def str_def example_defs)

text \<open>
  C8, as the routes have it. When the caller owns the event, the assignment route adds
  one record of the pair to whatever the table holds, so the number of records of the
  pair grows by one with each call, and the removal route leaves no record of the pair;
  neither route changes the number of records of any other pair.
\<close>

theorem assign_adds_one_remove_clears:
  assumes "requireRole [''event_manager''] d s = Inr u"
    and "getEvent d eventId = Some ev"
    and "e_eventManagerId ev = u_id u"
  shows "count_assignments (fst (post_event_organizers d s eventId organizerId)) eventId organizerId
           = count_assignments d eventId organizerId + 1
       \<and> count_assignments (fst (delete_event_organizer d s eventId organizerId)) eventId organizerId
           = 0
       \<and> ((e, organizer) \<noteq> (eventId, organizerId) \<longrightarrow>
            count_assignments (fst (post_event_organizers d s eventId organizerId)) e organizer
              = count_assignments d e organizer
          \<and> count_assignments (fst (delete_event_organizer d s eventId organizerId)) e organizer
              = count_assignments d e organizer)"
proof -
  have "filter (\<lambda>a. a_eventId a = e \<and> a_organizerId a = organizer)
          (filter (\<lambda>a. \<not> (a_eventId a = eventId \<and> a_organizerId a = organizerId)) xs)
        = filter (\<lambda>a. a_eventId a = e \<and> a_organizerId a = organizer) xs"
    if "(e, organizer) \<noteq> (eventId, organizerId)" for xs :: "event_organizer list"
    using that by (induction xs) auto
  moreover have "filter (\<lambda>a. a_eventId a = eventId \<and> a_organizerId a = organizerId)
          (filter (\<lambda>a. \<not> (a_eventId a = eventId \<and> a_organizerId a = organizerId)) xs) = []"
    for xs :: "event_organizer list"
    by (induction xs) auto
  ultimately show ?thesis
    unfolding post_event_organizers_owner [OF assms] delete_event_organizer_owner [OF assms]
    by (auto simp: count_assignments_def removeOrganizer_def)
qed

theorem assign_adds_one_remove_clears_witness:
  "requireRole [''event_manager''] db0 (Some ''m1'') = Inr manager1
   \<and> getEvent db0 ''e1'' = Some event1
   \<and> e_eventManagerId event1 = u_id manager1
   \<and> count_assignments db0 ''e1'' ''o1'' = 1
   \<and> count_assignments (fst (post_event_organizers db0 (Some ''m1'') ''e1'' ''o1'')) ''e1'' ''o1'' = 2
   \<and> count_assignments (fst (delete_event_organizer db0 (Some ''m1'') ''e1'' ''o1'')) ''e1'' ''o1'' = 0
   \<and> (''e1'', ''o2'') \<noteq> (''e1'', ''o1'')
   \<and> count_assignments (fst (delete_event_organizer db0 (Some ''m1'') ''e1'' ''o1'')) ''e1'' ''o2'' = 1"
proof -
  have role_ok: "requireRole [''event_manager''] db0 (Some ''m1'') = Inr manager1"
    by (simp add: requireRole_def getUser_def falsy_def str_def example_defs)
  have ev: "getEvent db0 ''e1'' = Some event1"
    by (simp add: getEvent_def example_defs)
  have own: "e_eventManagerId event1 = u_id manager1"
    by (simp add: example_defs)
  have before: "count_assignments db0 ''e1'' ''o1'' = 1 \<and> count_assignments db0 ''e1'' ''o2'' = 1"
    by (simp add: count_assignments_def example_defs)
  have other: "(''e1'', ''o2'') \<noteq> (''e1'', ''o1'')"
    by simp
  show ?thesis
    using assign_adds_one_remove_clears [OF role_ok ev own, of "''o1''" "''e1''" "''o2''"]
          role_ok ev own before other
    by simp
qed

text \<open>
  The claim C10 as it is worded fails in its last part. The owning manager assigns the
  id of an admin account to event e1, and the route stores it; the admin is still refused
  at the role check of the check-in route. The owning manager assigns organizer o3 to the
  inactive event e2, and the route stores it; o3 is still refused for a guest of e2,
  because the events of an organizer are read with the inactive ones left out.
\<close>

theorem assigned_id_refused_counterexample:
  "snd (post_event_organizers db0 (Some ''m1'') ''e1'' ''a1'')
     = OrganizerAssigned \<lparr>a_eventId = ''e1'', a_organizerId = ''a1''\<rparr>
   \<and> post_check_in (fst (post_event_organizers db0 (Some ''m1'') ''e1'' ''a1'')) 7
        (Some ''a1'') ''g1''
     = (fst (post_event_organizers db0 (Some ''m1'') ''e1'' ''a1''), Failure 403 msg_forbidden)
   \<and> snd (post_event_organizers db0 (Some ''m1'') ''e2'' ''o3'')
     = OrganizerAssigned \<lparr>a_eventId = ''e2'', a_organizerId = ''o3''\<rparr>
   \<and> post_check_in (fst (post_event_organizers db0 (Some ''m1'') ''e2'' ''o3'')) 7
        (Some ''o3'') ''g4''
     = (fst (post_event_organizers db0 (Some ''m1'') ''e2'' ''o3''), Failure 403 msg_forbidden)"
  by (simp add: post_event_organizers_def post_check_in_def storage_defs route_defs
                example_defs)

lemma getOrganizerEvents_after_assign:
  assumes "getEvent d eventId = Some ev" and "e_isActive ev"
  shows "list_ex (\<lambda>e. e_id e = eventId)
           (getOrganizerEvents
              (d\<lparr>eventOrganizers := eventOrganizers d @
                    [\<lparr>a_eventId = eventId, a_organizerId = organizerId\<rparr>]\<rparr>)
              organizerId)"
proof -
  have "e_id ev = eventId"
    using assms(1) find_id_Some [of "\<lambda>e. e_id e = eventId" "events d" ev]
    by (simp add: getEvent_def)
  with assms show ?thesis
    by (simp add: getOrganizerEvents_def getEvent_def List.map_filter_def list_ex_iff)
qed

text \<open>
  C10, as the routes have it. When the caller owns the event, the assignment route stores
  the pair for whatever string is given as the organizer id, with no lookup of that id,
  and answers with the pair. From then on, if the event is active, the events read for
  that id contain the event, so an account with that id is not stopped by the organizer's
  assignment check for a guest of the event. (The role check of the check-in route, which
  admits the roles organizer and event manager only, comes before that check.)
\<close>

theorem assign_organizer_unvalidated:
  assumes "requireRole [''event_manager''] d s = Inr u"
    and "getEvent d eventId = Some ev"
    and "e_eventManagerId ev = u_id u"
  shows "post_event_organizers d s eventId organizerId =
           (d\<lparr>eventOrganizers := eventOrganizers d @
                 [\<lparr>a_eventId = eventId, a_organizerId = organizerId\<rparr>]\<rparr>,
            OrganizerAssigned \<lparr>a_eventId = eventId, a_organizerId = organizerId\<rparr>)
       \<and> (e_isActive ev \<longrightarrow>
            list_ex (\<lambda>e. e_id e = eventId)
              (getOrganizerEvents (fst (post_event_organizers d s eventId organizerId))
                 organizerId))
       \<and> (e_isActive ev \<and> u_id w = organizerId \<and> g_eventId g = eventId \<longrightarrow>
            \<not> organizer_blocked (fst (post_event_organizers d s eventId organizerId)) w g)"
  using getOrganizerEvents_after_assign [OF assms(2), of organizerId]
  by (auto simp: post_event_organizers_owner [OF assms] organizer_blocked_def)

theorem assign_organizer_unvalidated_witness:
  "requireRole [''event_manager''] db0 (Some ''m1'') = Inr manager1
   \<and> getEvent db0 ''e1'' = Some event1
   \<and> e_eventManagerId event1 = u_id manager1
   \<and> getUser db0 ''nobody'' = None
   \<and> snd (post_event_organizers db0 (Some ''m1'') ''e1'' ''nobody'')
       = OrganizerAssigned \<lparr>a_eventId = ''e1'', a_organizerId = ''nobody''\<rparr>
   \<and> e_isActive event1
   \<and> list_ex (\<lambda>e. e_id e = ''e1'')
        (getOrganizerEvents (fst (post_event_organizers db0 (Some ''m1'') ''e1'' ''nobody''))
           ''nobody'')
   \<and> (u_id (organizer3\<lparr>u_id := ''nobody''\<rparr>) = ''nobody'' \<and> g_eventId guest1 = ''e1'')
   \<and> \<not> organizer_blocked (fst (post_event_organizers db0 (Some ''m1'') ''e1'' ''nobody''))
          (organizer3\<lparr>u_id := ''nobody''\<rparr>) guest1"
proof -
  have role_ok: "requireRole [''event_manager''] db0 (Some ''m1'') = Inr manager1"
    by (simp add: requireRole_def getUser_def falsy_def str_def example_defs)
  have ev: "getEvent db0 ''e1'' = Some event1"
    by (simp add: getEvent_def example_defs)
  have own: "e_eventManagerId event1 = u_id manager1"
    by (simp add: example_defs)
  have none: "getUser db0 ''nobody'' = None"
    by (simp add: getUser_def example_defs)
  have active: "e_isActive event1"
    by (simp add: event1_def)
  have same: "u_id (organizer3\<lparr>u_id := ''nobody''\<rparr>) = ''nobody'' \<and> g_eventId guest1 = ''e1''"
    by (simp add: guest1_def)
  note at_nobody =
    assign_organizer_unvalidated
      [OF role_ok ev own, of "''nobody''" "organizer3\<lparr>u_id := ''nobody''\<rparr>" guest1]
  have stored: "snd (post_event_organizers db0 (Some ''m1'') ''e1'' ''nobody'')
                  = OrganizerAssigned \<lparr>a_eventId = ''e1'', a_organizerId = ''nobody''\<rparr>"
    using at_nobody by simp
  have listed: "list_ex (\<lambda>e. e_id e = ''e1'')
                  (getOrganizerEvents (fst (post_event_organizers db0 (Some ''m1'') ''e1'' ''nobody''))
                     ''nobody'')"
    using at_nobody active by blast
  have passes: "\<not> organizer_blocked (fst (post_event_organizers db0 (Some ''m1'') ''e1'' ''nobody''))
                     (organizer3\<lparr>u_id := ''nobody''\<rparr>) guest1"
    using at_nobody active same by blast
  from role_ok ev own none stored active listed same passes show ?thesis
    by blast
qed

section \<open>Creating an account\<close>

text \<open>
  The three permission checks of the route, for the target roles they name: the caller
  is refused with 403, and the database is unchanged, unless the caller is a super admin
  (target admin), a super admin or an admin (target event manager), or an event manager
  (target organizer).
\<close>

lemma post_users_checked_roles:
  assumes "\<not> falsy s" and "getUser d (str s) = Some a"
  shows "(iu_role body = ''admin'' \<and> u_role a \<noteq> ''super_admin''
            \<longrightarrow> post_users H valid newId d s body = (d, Failure 403 msg_forbidden))
       \<and> (iu_role body = ''event_manager'' \<and> u_role a \<noteq> ''super_admin'' \<and> u_role a \<noteq> ''admin''
            \<longrightarrow> post_users H valid newId d s body = (d, Failure 403 msg_forbidden))
       \<and> (iu_role body = ''organizer'' \<and> u_role a \<noteq> ''event_manager''
            \<longrightarrow> post_users H valid newId d s body = (d, Failure 403 msg_forbidden))"
  using assms by (simp add: post_users_def requireAuth_def)

text \<open>
  C1 at the target role the route has no check for. Organizer o1, the lowest role, asks
  for an account with the role super admin: none of the three checks names that role, so
  the request reaches the schema validation. If the body passes it, the account is
  stored with the role super admin and o1 as its creator; if not, the answer is 400. In
  neither case is it the 403 of a refused pair.
\<close>

theorem create_super_admin_not_refused:
  "post_users H valid ''u9'' db0 (Some ''o1'')
      \<lparr>iu_username = ''root2'', iu_password = ''pw'', iu_name = ''Root'', iu_role = ''super_admin'',
       iu_isActive = True, iu_createdById = None, iu_eventQuota = 5\<rparr>
    = (if valid \<lparr>iu_username = ''root2'', iu_password = ''pw'', iu_name = ''Root'',
                 iu_role = ''super_admin'', iu_isActive = True, iu_createdById = None,
                 iu_eventQuota = 5\<rparr>
       then (db0\<lparr>users := users db0 @
                   [\<lparr>u_id = ''u9'', u_username = ''root2'', u_password = H ''pw'', u_name = ''Root'',
                     u_role = ''super_admin'', u_isActive = True, u_createdById = Some ''o1'',
                     u_eventQuota = 5\<rparr>]\<rparr>,
             UserCreated
               \<lparr>u_id = ''u9'', u_username = ''root2'', u_password = [], u_name = ''Root'',
                u_role = ''super_admin'', u_isActive = True, u_createdById = Some ''o1'',
                u_eventQuota = 5\<rparr>)
       else (db0, Failure 400 msg_invalid_data))
   \<and> snd (post_users H valid ''u9'' db0 (Some ''o1'')
            \<lparr>iu_username = ''root2'', iu_password = ''pw'', iu_name = ''Root'',
             iu_role = ''super_admin'', iu_isActive = True, iu_createdById = None,
             iu_eventQuota = 5\<rparr>)
       \<noteq> Failure 403 msg_forbidden"
  by (simp add: post_users_def Let_def storage_defs route_defs example_defs)

section \<open>Who may check a guest in\<close>

text \<open>
  The organizer's half of C3: an organizer for whom the events read from the assignment
  table do not contain the guest's event is refused with 403, and the database is
  unchanged.
\<close>

lemma check_in_unassigned_organizer_forbidden:
  assumes "requireRole [''organizer'', ''event_manager''] d s = Inr u"
    and "u_role u = ''organizer''"
    and "getGuest d i = Some g"
    and "\<not> list_ex (\<lambda>e. e_id e = g_eventId g) (getOrganizerEvents d (u_id u))"
  shows "post_check_in d now s i = (d, Failure 403 msg_forbidden)"
  using assms by (simp add: post_check_in_def organizer_blocked_def)

text \<open>
  C3 at an event manager who does not own the event. Event e1 of guest g1 belongs to
  manager m1. Manager m2 calls the check-in route for g1: the route looks at assignments
  only when the caller's role is organizer, so m2 is let through, g1 is stored as checked
  in by m2, an audit entry is written, and the answer is "success".
\<close>

theorem check_in_by_foreign_manager_succeeds:
  "getEvent db0 (g_eventId guest1) = Some event1
   \<and> e_eventManagerId event1 \<noteq> u_id manager2
   \<and> requireRole [''organizer'', ''event_manager''] db0 (Some ''m2'') = Inr manager2
   \<and> post_check_in db0 7 (Some ''m2'') ''g1'' =
       (db0\<lparr>guests := [mark_checked_in ''m2'' 7 guest1, guest2, guest3, guest4],
             auditLogs := [check_in_log manager2 guest1]\<rparr>,
        CheckInSuccess (Some (mark_checked_in ''m2'' 7 guest1)) msg_check_in_ok)"
  by (simp add: post_check_in_def checkInGuest_def createAuditLog_def getUser_def getGuest_def
                getEvent_def getOrganizerEvents_def route_defs example_defs)

section \<open>Two check-ins of one guest\<close>

text \<open>
  A request that runs its five steps with no other request in between does what
  \<open>post_check_in\<close> does, with the clock of the fourth step, the one that writes.
\<close>

lemma check_in_steps_alone:
  "run2 a b [(First, t1), (First, t2), (First, t3), (First, t4), (First, t5)] (d, Start, pb)
     = (fst (post_check_in d t4 (rq_session a) (rq_guestId a)),
        Done (snd (post_check_in d t4 (rq_session a) (rq_guestId a))), pb)"
  by (simp add: post_check_in_def split_def Let_def split: sum.splits option.splits)

text \<open>
  The claim C2 as it is worded fails. Organizer o1 and manager m1 both ask to check in
  guest g1, who is not checked in. Each request reads the guest before the other has
  written; then o1's request writes and logs, then m1's. Both are answered "success", the
  audit log holds two check-in entries for g1, and the stored guest names m1 at time 9,
  the later writer. The write itself has no condition on the flag: \<open>checkInGuest\<close> on
  guest g2, who was checked in by o1 at time 100, stores m1 and the new time.
\<close>

theorem concurrent_check_in_counterexample:
  "run2 \<lparr>rq_session = Some ''o1'', rq_guestId = ''g1''\<rparr>
        \<lparr>rq_session = Some ''m1'', rq_guestId = ''g1''\<rparr>
        [(First, 1), (First, 2), (First, 3), (Second, 4), (Second, 5), (Second, 6),
         (First, 7), (First, 8), (Second, 9), (Second, 10)]
        (db0, Start, Start)
     = (db0\<lparr>guests := [mark_checked_in ''m1'' 9 guest1, guest2, guest3, guest4],
            auditLogs := [check_in_log organizer1 guest1, check_in_log manager1 guest1]\<rparr>,
        Done (CheckInSuccess (Some (mark_checked_in ''o1'' 7 guest1)) msg_check_in_ok),
        Done (CheckInSuccess (Some (mark_checked_in ''m1'' 9 guest1)) msg_check_in_ok))
   \<and> count_check_in_logs
        (db0\<lparr>guests := [mark_checked_in ''m1'' 9 guest1, guest2, guest3, guest4],
             auditLogs := [check_in_log organizer1 guest1, check_in_log manager1 guest1]\<rparr>)
        ''g1'' = 2
   \<and> g_isCheckedIn guest2 \<and> g_checkedInBy guest2 = Some ''o1''
   \<and> getGuest (fst (checkInGuest db0 50 ''g2'' ''m1'')) ''g2''
       = Some (guest2\<lparr>g_checkedInAt := Some 50, g_checkedInBy := Some ''m1''\<rparr>)"
  by (simp add: checkInGuest_def createAuditLog_def getUser_def getGuest_def getEvent_def
                getOrganizerEvents_def route_defs example_defs count_check_in_logs_def
                mark_checked_in_def List.map_filter_def)

lemma find_after_update:
  assumes "\<And>x. key (f x) = key x"
  shows "find (\<lambda>x. key x = i) (map (\<lambda>x. if key x = i then f x else x) xs)
           = map_option f (find (\<lambda>x. key x = i) xs)"
  using assms by (induction xs) auto

lemma checkInGuest_frame:
  "users (fst (checkInGuest d now i w)) = users d
   \<and> events (fst (checkInGuest d now i w)) = events d
   \<and> eventOrganizers (fst (checkInGuest d now i w)) = eventOrganizers d
   \<and> auditLogs (fst (checkInGuest d now i w)) = auditLogs d"
  by (simp add: checkInGuest_def)

lemma getGuest_checkInGuest:
  "getGuest (fst (checkInGuest d now i w)) i = map_option (mark_checked_in w now) (getGuest d i)"
  using find_after_update [of g_id "mark_checked_in w now" i "guests d"]
  by (simp add: checkInGuest_def getGuest_def mark_checked_in_def)

lemma post_check_in_success:
  assumes "requireRole [''organizer'', ''event_manager''] d s = Inr u"
    and "getGuest d i = Some g"
    and "\<not> organizer_blocked d u g"
    and "\<not> g_isCheckedIn g"
  shows "post_check_in d now s i =
           (createAuditLog (fst (checkInGuest d now i (u_id u))) (check_in_log u g),
            CheckInSuccess (Some (mark_checked_in (u_id u) now g)) msg_check_in_ok)"
  using assms
  by (simp add: post_check_in_def split_def Let_def)
     (simp add: checkInGuest_def getGuest_def)

lemma requireRole_after_check_in:
  "requireRole roles (createAuditLog (fst (checkInGuest d now i w)) l) s = requireRole roles d s"
  by (simp add: requireRole_def getUser_def createAuditLog_def checkInGuest_def)

lemma getEvent_after_check_in:
  "getEvent (createAuditLog (fst (checkInGuest d now i w)) l) = getEvent d"
  by (rule ext) (simp add: getEvent_def createAuditLog_def checkInGuest_def)

lemma eventOrganizers_after_check_in:
  "eventOrganizers (createAuditLog (fst (checkInGuest d now i w)) l) = eventOrganizers d"
  by (simp add: createAuditLog_def checkInGuest_def)

lemma blocked_after_check_in:
  "organizer_blocked (createAuditLog (fst (checkInGuest d now i w)) l) u (mark_checked_in w now g)
     = organizer_blocked d u g"
  by (simp add: organizer_blocked_def getOrganizerEvents_def Let_def getEvent_after_check_in
                eventOrganizers_after_check_in mark_checked_in_def)

lemma getGuest_after_log:
  "getGuest (createAuditLog d l) i = getGuest d i"
  by (simp add: getGuest_def createAuditLog_def)

text \<open>
  C2, as the route has it, for two calls handled one after the other. Both callers pass
  the role check and the organizer's assignment check, and the stored guest is not checked
  in. The first call is answered "success" with the guest marked by the first caller at
  the first call's time; the second call, run on the database the first one left, is
  answered "duplicate" with that time and leaves that database as it is. The guest stored
  at the end carries the first caller and the first time, and the audit log has grown by
  exactly the first caller's check-in entry. Nothing is said here about two calls whose
  storage operations interleave: the write in \<open>checkInGuest\<close> carries no condition on
  the checked-in flag.
\<close>

theorem check_in_twice_in_sequence:
  assumes "requireRole [''organizer'', ''event_manager''] d s1 = Inr u1"
    and "requireRole [''organizer'', ''event_manager''] d s2 = Inr u2"
    and "getGuest d i = Some g"
    and "\<not> g_isCheckedIn g"
    and "\<not> organizer_blocked d u1 g"
    and "\<not> organizer_blocked d u2 g"
  shows "snd (post_check_in d t1 s1 i)
           = CheckInSuccess (Some (mark_checked_in (u_id u1) t1 g)) msg_check_in_ok
       \<and> status (snd (post_check_in (fst (post_check_in d t1 s1 i)) t2 s2 i)) = Some ''duplicate''
       \<and> (\<exists>m by. snd (post_check_in (fst (post_check_in d t1 s1 i)) t2 s2 i)
                  = CheckInDuplicate (mark_checked_in (u_id u1) t1 g) m (Some t1) by)
       \<and> fst (post_check_in (fst (post_check_in d t1 s1 i)) t2 s2 i) = fst (post_check_in d t1 s1 i)
       \<and> getGuest (fst (post_check_in (fst (post_check_in d t1 s1 i)) t2 s2 i)) i
           = Some (mark_checked_in (u_id u1) t1 g)
       \<and> auditLogs (fst (post_check_in (fst (post_check_in d t1 s1 i)) t2 s2 i))
           = auditLogs d @ [check_in_log u1 g]"
proof -
  let ?d1 = "createAuditLog (fst (checkInGuest d t1 i (u_id u1))) (check_in_log u1 g)"
  let ?g1 = "mark_checked_in (u_id u1) t1 g"
  have first: "post_check_in d t1 s1 i = (?d1, CheckInSuccess (Some ?g1) msg_check_in_ok)"
    using assms(1,3,5,4) by (rule post_check_in_success)
  have role2: "requireRole [''organizer'', ''event_manager''] ?d1 s2 = Inr u2"
    using assms(2) by (simp add: requireRole_after_check_in)
  have guest2: "getGuest ?d1 i = Some ?g1"
    using assms(3) by (simp add: getGuest_after_log getGuest_checkInGuest)
  have open2: "\<not> organizer_blocked ?d1 u2 ?g1"
    using assms(6) by (simp add: blocked_after_check_in)
  have marked: "g_isCheckedIn ?g1 \<and> g_checkedInAt ?g1 = Some t1"
    by (simp add: mark_checked_in_def)
  have second: "post_check_in ?d1 t2 s2 i = (?d1, duplicate_reply ?d1 ?g1)"
    using role2 guest2 open2 marked by (simp add: post_check_in_def)
  have logs: "auditLogs ?d1 = auditLogs d @ [check_in_log u1 g]"
    by (simp add: createAuditLog_def checkInGuest_def)
  show ?thesis
    using guest2 marked logs
    by (simp add: first second duplicate_reply_def Let_def)
qed

theorem check_in_twice_in_sequence_witness:
  "requireRole [''organizer'', ''event_manager''] db0 (Some ''o1'') = Inr organizer1
   \<and> requireRole [''organizer'', ''event_manager''] db0 (Some ''m1'') = Inr manager1
   \<and> getGuest db0 ''g1'' = Some guest1
   \<and> \<not> g_isCheckedIn guest1
   \<and> \<not> organizer_blocked db0 organizer1 guest1
   \<and> \<not> organizer_blocked db0 manager1 guest1
   \<and> snd (post_check_in db0 7 (Some ''o1'') ''g1'')
       = CheckInSuccess (Some (mark_checked_in ''o1'' 7 guest1)) msg_check_in_ok
   \<and> status (snd (post_check_in (fst (post_check_in db0 7 (Some ''o1'') ''g1'')) 9 (Some ''m1'') ''g1''))
       = Some ''duplicate''
   \<and> getGuest (fst (post_check_in (fst (post_check_in db0 7 (Some ''o1'') ''g1'')) 9 (Some ''m1'') ''g1''))
        ''g1''
       = Some (mark_checked_in ''o1'' 7 guest1)
   \<and> auditLogs (fst (post_check_in (fst (post_check_in db0 7 (Some ''o1'') ''g1'')) 9 (Some ''m1'') ''g1''))
       = [check_in_log organizer1 guest1]"
proof -
  have role1: "requireRole [''organizer'', ''event_manager''] db0 (Some ''o1'') = Inr organizer1"
    by (simp add: requireRole_def getUser_def falsy_def str_def example_defs)
  have role2: "requireRole [''organizer'', ''event_manager''] db0 (Some ''m1'') = Inr manager1"
    by (simp add: requireRole_def getUser_def falsy_def str_def example_defs)
  have found: "getGuest db0 ''g1'' = Some guest1"
    by (simp add: getGuest_def example_defs)
  have fresh: "\<not> g_isCheckedIn guest1"
    by (simp add: guest1_def)
  have open1: "\<not> organizer_blocked db0 organizer1 guest1"
    by (simp add: organizer_blocked_def storage_defs example_defs)
  have open2: "\<not> organizer_blocked db0 manager1 guest1"
    by (simp add: organizer_blocked_def manager1_def)
  have who: "u_id organizer1 = ''o1''"
    by (simp add: organizer1_def)
  have empty: "auditLogs db0 = []"
    by (simp add: db0_def)
  note both = check_in_twice_in_sequence [OF role1 role2 found fresh open1 open2, of 7 9]
  have c1: "snd (post_check_in db0 7 (Some ''o1'') ''g1'')
              = CheckInSuccess (Some (mark_checked_in ''o1'' 7 guest1)) msg_check_in_ok"
    using both unfolding who by blast
  have c2: "status (snd (post_check_in (fst (post_check_in db0 7 (Some ''o1'') ''g1'')) 9
                           (Some ''m1'') ''g1'')) = Some ''duplicate''"
    using both by blast
  have c3: "getGuest (fst (post_check_in (fst (post_check_in db0 7 (Some ''o1'') ''g1'')) 9
                             (Some ''m1'') ''g1'')) ''g1''
              = Some (mark_checked_in ''o1'' 7 guest1)"
    using both unfolding who by blast
  have c4: "auditLogs (fst (post_check_in (fst (post_check_in db0 7 (Some ''o1'') ''g1'')) 9
                              (Some ''m1'') ''g1''))
              = [check_in_log organizer1 guest1]"
    using both unfolding empty append_Nil by blast
  from role1 role2 found fresh open1 open2 c1 c2 c3 c4 show ?thesis
    by blast
qed

end
